theory Spec2Isabelle
  imports Complex_Main "HOL-Library.AList"
begin

section \<open>Values, exceptions and records of the formula evaluation service\<close>

text \<open>
  The service (\<^verbatim>\<open>src/apps/main.py\<close>) receives JSON: a list of data items (dictionaries from
  field names to arbitrary JSON values) and a list of formulas. A Python float is
  represented by the rational number it denotes (\<open>Finite q\<close> stands for the binary64 value
  nearest to \<open>q\<close>), or by one of the three special values. Strings are ASCII text.
\<close>

datatype pyfloat = Finite rat | PosInf | NegInf | NaN

datatype datetime = Datetime int int int int int int int

datatype pyval =
    VNone
  | VBool bool
  | VInt int
  | VFloat pyfloat
  | VStr string
  | VList "pyval list"
  | VDict "(string \<times> pyval) list"
  | VDatetime datetime

text \<open>
  The messages of the exceptions that the conversion code raises or passes on. The first
  three are the texts \<^verbatim>\<open>could not convert string to float: ...\<close> (the builtin \<^verbatim>\<open>float\<close>),
  \<^verbatim>\<open>Invalid currency format: ...\<close> (\<^verbatim>\<open>parse_currency\<close>) and \<^verbatim>\<open>Unsupported variable type: ...\<close>
  (\<^verbatim>\<open>convert_variable\<close>); \<open>float_argument\<close> is the \<^verbatim>\<open>TypeError\<close> of \<^verbatim>\<open>float\<close> on a value that
  is neither text nor a number, \<open>int_too_large\<close> its \<^verbatim>\<open>OverflowError\<close>.
\<close>

datatype message =
    could_not_convert string
  | invalid_currency string
  | unsupported_type string
  | float_argument pyval
  | int_too_large
  | list_index_out_of_range
  | library_message string

datatype exn =
    ValueError message
  | TypeError message
  | OverflowError message
  | KeyError string
  | IndexError message
  | SyntaxError message
  | NotImplementedError message

text \<open>What \<^verbatim>\<open>dateutil.parser.parse\<close> raises: \<^verbatim>\<open>ParserError\<close> (a \<^verbatim>\<open>ValueError\<close>) or \<^verbatim>\<open>OverflowError\<close>.\<close>

datatype date_error = ParserError string | DateOverflowError string

type_synonym pydict = "(string \<times> pyval) list"

text \<open>The two libraries the service calls are parameters of the model.\<close>

type_synonym date_parser = "string \<Rightarrow> date_error + datetime"

type_synonym evaluator = "string \<Rightarrow> pydict \<Rightarrow> exn + pyval"

record InputVar =
  varName :: string
  varType :: string

record Formula =
  outputVar :: string
  expression :: string
  inputs :: "InputVar list"

record FormulaRequest =
  data :: "pydict list"
  formulas :: "Formula list"

section \<open>Python builtins used by the conversion code\<close>

definition is_digit :: "char \<Rightarrow> bool" where
  "is_digit c \<longleftrightarrow> c \<in> set ''0123456789''"

definition is_alpha :: "char \<Rightarrow> bool" where
  "is_alpha c \<longleftrightarrow> c \<in> set ''ABCDEFGHIJKLMNOPQRSTUVWXYZabcdefghijklmnopqrstuvwxyz''"

text \<open>\<^verbatim>\<open>Py_ISSPACE\<close>, which \<^verbatim>\<open>float\<close> strips from both ends of ASCII text.\<close>

definition is_space :: "char \<Rightarrow> bool" where
  "is_space c \<longleftrightarrow> c \<in> set [CHR 0x09, CHR 0x0A, CHR 0x0B, CHR 0x0C, CHR 0x0D, CHR '' '']"

text \<open>\<^verbatim>\<open>\s\<close> of a \<^verbatim>\<open>re\<close> pattern over \<^verbatim>\<open>str\<close>, on the code points below 256.\<close>

definition re_space :: "char \<Rightarrow> bool" where
  "re_space c \<longleftrightarrow> c \<in> set [CHR 0x09, CHR 0x0A, CHR 0x0B, CHR 0x0C, CHR 0x0D,
     CHR 0x1C, CHR 0x1D, CHR 0x1E, CHR 0x1F, CHR '' '', CHR 0x85, CHR 0xA0]"

definition digit_value :: "char \<Rightarrow> nat" where
  "digit_value c = of_char c - 48"

definition digits_value :: "string \<Rightarrow> nat" where
  "digits_value ds = foldl (\<lambda>n c. 10 * n + digit_value c) 0 ds"

text \<open>\<^verbatim>\<open>s.strip(chars)\<close>, \<^verbatim>\<open>s.endswith(c)\<close> and \<^verbatim>\<open>s.replace(c, '')\<close>.\<close>

definition strip_chars :: "(char \<Rightarrow> bool) \<Rightarrow> string \<Rightarrow> string" where
  "strip_chars p s = rev (dropWhile p (rev (dropWhile p s)))"

definition endswith :: "string \<Rightarrow> char \<Rightarrow> bool" where
  "endswith s c \<longleftrightarrow> s \<noteq> [] \<and> last s = c"

definition remove_char :: "char \<Rightarrow> string \<Rightarrow> string" where
  "remove_char c s = filter (\<lambda>x. x \<noteq> c) s"

text \<open>
  Underscores in a numeric literal: allowed between two digits only. \<open>prev\<close> is the
  character before the rest (NUL at the start).
\<close>

fun drop_underscores :: "char \<Rightarrow> string \<Rightarrow> string option" where
  "drop_underscores prev [] = (if prev = CHR ''_'' then None else Some [])"
| "drop_underscores prev (c # cs) =
     (if c = CHR ''_'' then (if is_digit prev then drop_underscores c cs else None)
      else if prev = CHR ''_'' \<and> \<not> is_digit c then None
      else map_option (Cons c) (drop_underscores c cs))"

definition to_lower :: "char \<Rightarrow> char" where
  "to_lower c = (if c \<in> set ''ABCDEFGHIJKLMNOPQRSTUVWXYZ'' then char_of (of_char c + (32::nat)) else c)"

text \<open>The exponent part of a decimal literal: empty, or \<^verbatim>\<open>e\<close>, an optional sign and digits.\<close>

definition parse_exponent :: "string \<Rightarrow> int option" where
  "parse_exponent s =
     (case s of
        [] \<Rightarrow> Some 0
      | c # r \<Rightarrow>
          if c = CHR ''e'' \<or> c = CHR ''E'' then
            (case r of
               [] \<Rightarrow> None
             | d # r' \<Rightarrow>
                 if d = CHR ''-'' then
                   (if r' \<noteq> [] \<and> list_all is_digit r' then Some (- int (digits_value r')) else None)
                 else if d = CHR ''+'' then
                   (if r' \<noteq> [] \<and> list_all is_digit r' then Some (int (digits_value r')) else None)
                 else if list_all is_digit r then Some (int (digits_value r)) else None)
          else None)"

text \<open>
  An unsigned decimal literal that fills the whole text: digits, an optional point and
  digits (one digit at least), an optional exponent. The value is exact.
\<close>

definition parse_decimal :: "string \<Rightarrow> rat option" where
  "parse_decimal s =
     (let ip = takeWhile is_digit s;
          r1 = dropWhile is_digit s;
          fp = (case r1 of [] \<Rightarrow> [] | c # t \<Rightarrow> if c = CHR ''.'' then takeWhile is_digit t else []);
          r2 = (case r1 of [] \<Rightarrow> [] | c # t \<Rightarrow> if c = CHR ''.'' then dropWhile is_digit t else r1)
      in if ip = [] \<and> fp = [] then None
         else (case parse_exponent r2 of
                 None \<Rightarrow> None
               | Some e \<Rightarrow>
                   let m = of_nat (digits_value (ip @ fp)); k = e - int (length fp)
                   in Some (if 0 \<le> k then m * 10 ^ nat k else m / 10 ^ nat (- k))))"

text \<open>
  Rounding a number to binary64 changes which value it is only out of range: at and above
  \<open>2^1024 - 2^970\<close> the result is an infinity, at and below \<open>2^-1075\<close> it is zero. Inside
  the range \<open>Finite q\<close> stands for the nearest binary64 value.
\<close>

definition to_double :: "rat \<Rightarrow> pyfloat" where
  "to_double q =
     (if 2 ^ 1024 - 2 ^ 970 \<le> \<bar>q\<bar> then (if 0 < q then PosInf else NegInf)
      else if \<bar>q\<bar> \<le> 1 / 2 ^ 1075 then Finite 0
      else Finite q)"

text \<open>\<^verbatim>\<open>float(s)\<close> for text: strip white space, check underscores, then a sign and
  \<^verbatim>\<open>inf\<close>, \<^verbatim>\<open>infinity\<close>, \<^verbatim>\<open>nan\<close> (any case) or a decimal literal.\<close>

definition float_of_string :: "string \<Rightarrow> exn + pyfloat" where
  "float_of_string s =
     (case drop_underscores (CHR 0x00) (strip_chars is_space s) of
        None \<Rightarrow> Inl (ValueError (could_not_convert s))
      | Some u \<Rightarrow>
          let neg = (u \<noteq> [] \<and> hd u = CHR ''-'');
              body = (if u \<noteq> [] \<and> (hd u = CHR ''-'' \<or> hd u = CHR ''+'') then tl u else u);
              low = map to_lower body
          in if low = ''inf'' \<or> low = ''infinity'' then Inr (if neg then NegInf else PosInf)
             else if low = ''nan'' then Inr NaN
             else (case parse_decimal body of
                     None \<Rightarrow> Inl (ValueError (could_not_convert s))
                   | Some q \<Rightarrow> Inr (to_double (if neg then - q else q))))"

text \<open>\<^verbatim>\<open>float(value)\<close> on a JSON value.\<close>

fun py_float :: "pyval \<Rightarrow> exn + pyval" where
  "py_float (VFloat x) = Inr (VFloat x)"
| "py_float (VInt n) =
     (if 2 ^ 1024 - 2 ^ 970 \<le> \<bar>of_int n :: rat\<bar> then Inl (OverflowError int_too_large)
      else Inr (VFloat (Finite (of_int n))))"
| "py_float (VBool b) = Inr (VFloat (Finite (if b then 1 else 0)))"
| "py_float (VStr s) = (case float_of_string s of Inl e \<Rightarrow> Inl e | Inr x \<Rightarrow> Inr (VFloat x))"
| "py_float v = Inl (TypeError (float_argument v))"

text \<open>\<^verbatim>\<open>bool(value)\<close>: Python's truth value testing.\<close>

fun py_bool :: "pyval \<Rightarrow> bool" where
  "py_bool VNone = False"
| "py_bool (VBool b) = b"
| "py_bool (VInt n) = (n \<noteq> 0)"
| "py_bool (VFloat x) = (x \<noteq> Finite 0)"
| "py_bool (VStr s) = (s \<noteq> [])"
| "py_bool (VList xs) = (xs \<noteq> [])"
| "py_bool (VDict kvs) = (kvs \<noteq> [])"
| "py_bool (VDatetime d) = True"

section \<open>parse_currency\<close>

text \<open>
  \<^verbatim>\<open>re.match(r'([A-Za-z]{3})?\s?\$?\s?([0-9,.]+)', text)\<close>. An optional item is tried first
  and given up when what follows fails with it (\<open>optional\<close>). The result is group 2.
\<close>

definition optional :: "(string \<Rightarrow> string option) \<Rightarrow> (string \<Rightarrow> 'a option) \<Rightarrow> string \<Rightarrow> 'a option" where
  "optional item k s =
     (case item s of
        None \<Rightarrow> k s
      | Some r \<Rightarrow> (case k r of Some m \<Rightarrow> Some m | None \<Rightarrow> k s))"

definition three_letters :: "string \<Rightarrow> string option" where
  "three_letters s = (if 3 \<le> length s \<and> list_all is_alpha (take 3 s) then Some (drop 3 s) else None)"

definition one_char :: "(char \<Rightarrow> bool) \<Rightarrow> string \<Rightarrow> string option" where
  "one_char p s = (case s of [] \<Rightarrow> None | c # r \<Rightarrow> if p c then Some r else None)"

definition is_amount_char :: "char \<Rightarrow> bool" where
  "is_amount_char c \<longleftrightarrow> is_digit c \<or> c = CHR '','' \<or> c = CHR ''.''"

definition amount_run :: "string \<Rightarrow> string option" where
  "amount_run s = (if takeWhile is_amount_char s = [] then None else Some (takeWhile is_amount_char s))"

definition currency_pattern :: "string \<Rightarrow> string option" where
  "currency_pattern =
     optional three_letters
       (optional (one_char re_space)
          (optional (one_char (\<lambda>c. c = CHR ''$''))
             (optional (one_char re_space) amount_run)))"

definition parse_currency :: "string \<Rightarrow> exn + pyval" where
  "parse_currency v =
     (case currency_pattern (remove_char (CHR '','') v) of
        Some g \<Rightarrow> py_float (VStr g)
      | None \<Rightarrow> Inl (ValueError (invalid_currency v)))"

section \<open>convert_variable\<close>

text \<open>
  The \<^verbatim>\<open>except ValueError as e: raise ValueError(e)\<close> clause keeps the message and turns a
  \<^verbatim>\<open>ParserError\<close> of dateutil into a plain \<^verbatim>\<open>ValueError\<close>; other exceptions pass through.
\<close>

definition convert_variable :: "date_parser \<Rightarrow> pyval \<Rightarrow> string \<Rightarrow> exn + pyval" where
  "convert_variable parse_date v var_type =
     (if var_type = ''number'' then py_float v
      else if var_type = ''boolean'' then Inr (VBool (py_bool v))
      else if var_type = ''datetime'' then
        (case v of
           VStr s \<Rightarrow>
             (case parse_date s of
                Inl (ParserError m) \<Rightarrow> Inl (ValueError (library_message m))
              | Inl (DateOverflowError m) \<Rightarrow> Inl (OverflowError (library_message m))
              | Inr d \<Rightarrow> Inr (VDatetime d))
         | _ \<Rightarrow> Inr v)
      else if var_type = ''percentage'' then
        (case v of
           VStr s \<Rightarrow>
             if endswith s (CHR ''%'') then py_float (VStr (strip_chars (\<lambda>c. c = CHR ''%'') s))
             else py_float v
         | _ \<Rightarrow> py_float v)
      else if var_type = ''currency'' then
        (case v of VStr s \<Rightarrow> parse_currency s | _ \<Rightarrow> py_float v)
      else Inl (ValueError (unsupported_type var_type)))"

section \<open>The responses of the service\<close>

text \<open>
  The \<^verbatim>\<open>detail\<close> of an \<^verbatim>\<open>HTTPException\<close>, one constructor for each message text of
  \<^verbatim>\<open>main.py\<close>, with the values the text is formatted from:
  \<^verbatim>\<open>Empty data\<close>; \<^verbatim>\<open>Empty formulas\<close>;
  \<^verbatim>\<open>Variable 'v' used in formula 'f' is not available in data or prior formulas.\<close>;
  \<^verbatim>\<open>Formula 'f' cannot reference itself in its inputs.\<close>;
  \<^verbatim>\<open>Error evaluating expression: syntax error in formula 'f' with expression 'e': ...\<close>;
  \<^verbatim>\<open>Error while converting variable: ...\<close>;
  \<^verbatim>\<open>Variable 'v' not found in data item with id ...\<close>;
  \<^verbatim>\<open>Error evaluating expression 'e': ...\<close>; and the text of an exception answered with
  status 500.
\<close>

datatype detail =
    EmptyData
  | EmptyFormulas
  | VariableNotAvailable string string
  | SelfReference string
  | FormulaSyntaxError string string exn
  | ConversionError exn
  | VariableNotFound string pyval
  | EvaluationError string exn
  | InternalError exn

datatype raised = HTTPException nat detail | Uncaught exn

type_synonym resultset = "(string \<times> pyval list) list"

record Response =
  results :: resultset
  status :: string
  message :: string

section \<open>validate_formulas\<close>

text \<open>The inner loop over \<^verbatim>\<open>formula.inputs\<close>: every name is in one of the two sets.\<close>

fun check_inputs :: "string set \<Rightarrow> string set \<Rightarrow> string \<Rightarrow> InputVar list \<Rightarrow> raised + unit" where
  "check_inputs available_vars evaluated_vars out [] = Inr ()"
| "check_inputs available_vars evaluated_vars out (input_var # rest) =
     (if varName input_var \<notin> available_vars \<and> varName input_var \<notin> evaluated_vars
      then Inl (HTTPException 400 (VariableNotAvailable (varName input_var) out))
      else check_inputs available_vars evaluated_vars out rest)"

text \<open>\<^verbatim>\<open>{var.varName: 1 for var in formula.inputs}\<close>\<close>

definition placeholders :: "InputVar list \<Rightarrow> pydict" where
  "placeholders vs = foldl (\<lambda>d v. AList.update (varName v) (VInt 1) d) [] vs"

text \<open>The loop over the formulas, \<^verbatim>\<open>evaluated_vars\<close> growing by one output name a round.\<close>

fun validate_loop :: "evaluator \<Rightarrow> string set \<Rightarrow> string set \<Rightarrow> Formula list \<Rightarrow> raised + unit" where
  "validate_loop numexpr available_vars evaluated_vars [] = Inr ()"
| "validate_loop numexpr available_vars evaluated_vars (formula # rest) =
     (case check_inputs available_vars evaluated_vars (outputVar formula) (inputs formula) of
        Inl e \<Rightarrow> Inl e
      | Inr _ \<Rightarrow>
          if outputVar formula \<in> set (map varName (inputs formula))
          then Inl (HTTPException 400 (SelfReference (outputVar formula)))
          else (case numexpr (expression formula) (placeholders (inputs formula)) of
                  Inl e \<Rightarrow>
                    Inl (HTTPException 400
                          (FormulaSyntaxError (outputVar formula) (expression formula) e))
                | Inr _ \<Rightarrow>
                    validate_loop numexpr available_vars
                      (insert (outputVar formula) evaluated_vars) rest))"

text \<open>\<^verbatim>\<open>data[0]\<close> raises \<^verbatim>\<open>IndexError\<close> on an empty list.\<close>

definition validate_formulas :: "evaluator \<Rightarrow> pydict list \<Rightarrow> Formula list \<Rightarrow> raised + unit" where
  "validate_formulas numexpr items fs =
     (case items of
        [] \<Rightarrow> Inl (Uncaught (IndexError list_index_out_of_range))
      | first # _ \<Rightarrow> validate_loop numexpr (set (map fst first)) {} fs)"

section \<open>evaluate_formulas\<close>

text \<open>\<^verbatim>\<open>item.get('id', 'unknown')\<close>\<close>

definition item_id :: "pydict \<Rightarrow> pyval" where
  "item_id item = (case map_of item ''id'' of Some v \<Rightarrow> v | None \<Rightarrow> VStr ''unknown'')"

text \<open>
  The loop that fills \<^verbatim>\<open>variables\<close> for one formula: each input is looked up in
  \<^verbatim>\<open>local_item\<close> and, when it is there, converted at once.
\<close>

fun prepare_variables ::
  "date_parser \<Rightarrow> pydict \<Rightarrow> pydict \<Rightarrow> pydict \<Rightarrow> InputVar list \<Rightarrow> raised + pydict" where
  "prepare_variables parse_date item local_item variables [] = Inr variables"
| "prepare_variables parse_date item local_item variables (input_var # rest) =
     (case map_of local_item (varName input_var) of
        Some x \<Rightarrow>
          (case convert_variable parse_date x (varType input_var) of
             Inl e \<Rightarrow> Inl (HTTPException 400 (ConversionError e))
           | Inr c \<Rightarrow>
               prepare_variables parse_date item local_item
                 (AList.update (varName input_var) c variables) rest)
      | None \<Rightarrow>
          Inl (HTTPException 400 (VariableNotFound (varName input_var) (item_id item))))"

text \<open>
  One formula on one data item. \<open>numexpr\<close> stands for \<^verbatim>\<open>numexpr.evaluate\<close> followed by
  \<^verbatim>\<open>.item()\<close>. The result is appended to the series of the output name and stored in
  \<^verbatim>\<open>local_item\<close>; all of it is inside the \<^verbatim>\<open>try\<close>.
\<close>

definition apply_formula ::
  "evaluator \<Rightarrow> date_parser \<Rightarrow> pydict \<Rightarrow> pydict \<times> resultset \<Rightarrow> Formula \<Rightarrow> raised + pydict \<times> resultset" where
  "apply_formula numexpr parse_date item st formula =
     (case prepare_variables parse_date item (fst st) [] (inputs formula) of
        Inl e \<Rightarrow> Inl e
      | Inr variables \<Rightarrow>
          (case numexpr (expression formula) variables of
             Inl e \<Rightarrow> Inl (HTTPException 400 (EvaluationError (expression formula) e))
           | Inr result_value \<Rightarrow>
               (case map_of (snd st) (outputVar formula) of
                  None \<Rightarrow>
                    Inl (HTTPException 400
                          (EvaluationError (expression formula) (KeyError (outputVar formula))))
                | Some series \<Rightarrow>
                    Inr (AList.update (outputVar formula) result_value (fst st),
                         AList.update (outputVar formula) (series @ [result_value]) (snd st)))))"

fun run_formulas ::
  "evaluator \<Rightarrow> date_parser \<Rightarrow> pydict \<Rightarrow> pydict \<times> resultset \<Rightarrow> Formula list \<Rightarrow> raised + pydict \<times> resultset" where
  "run_formulas numexpr parse_date item st [] = Inr st"
| "run_formulas numexpr parse_date item st (formula # rest) =
     (case apply_formula numexpr parse_date item st formula of
        Inl e \<Rightarrow> Inl e
      | Inr st' \<Rightarrow> run_formulas numexpr parse_date item st' rest)"

text \<open>The loop over the data items; \<^verbatim>\<open>local_item = item.copy()\<close> starts each round.\<close>

fun run_items ::
  "evaluator \<Rightarrow> date_parser \<Rightarrow> Formula list \<Rightarrow> resultset \<Rightarrow> pydict list \<Rightarrow> raised + resultset" where
  "run_items numexpr parse_date fs res [] = Inr res"
| "run_items numexpr parse_date fs res (item # rest) =
     (case run_formulas numexpr parse_date item (item, res) fs of
        Inl e \<Rightarrow> Inl e
      | Inr st \<Rightarrow> run_items numexpr parse_date fs (snd st) rest)"

text \<open>\<^verbatim>\<open>{formula.outputVar: [] for formula in formulas}\<close>\<close>

definition empty_results :: "Formula list \<Rightarrow> resultset" where
  "empty_results fs = foldl (\<lambda>d f. AList.update (outputVar f) [] d) [] fs"

text \<open>The body of the \<^verbatim>\<open>try\<close> of the endpoint.\<close>

definition evaluate_body :: "evaluator \<Rightarrow> date_parser \<Rightarrow> FormulaRequest \<Rightarrow> raised + Response" where
  "evaluate_body numexpr parse_date request =
     (if length (data request) = 0 then Inl (HTTPException 400 EmptyData)
      else if length (formulas request) = 0 then Inl (HTTPException 400 EmptyFormulas)
      else (case validate_formulas numexpr (data request) (formulas request) of
              Inl e \<Rightarrow> Inl e
            | Inr _ \<Rightarrow>
                (case run_items numexpr parse_date (formulas request)
                        (empty_results (formulas request)) (data request) of
                   Inl e \<Rightarrow> Inl e
                 | Inr res \<Rightarrow>
                     Inr \<lparr>results = res, status = ''success'',
                          message = ''The formulas were executed successfully with variable-based chaining.''\<rparr>)))"

text \<open>
  The endpoint: an \<^verbatim>\<open>HTTPException\<close> is raised again with status 400 and the same detail,
  any other exception is answered with status 500.
\<close>

definition evaluate_formulas :: "evaluator \<Rightarrow> date_parser \<Rightarrow> FormulaRequest \<Rightarrow> raised + Response" where
  "evaluate_formulas numexpr parse_date request =
     (case evaluate_body numexpr parse_date request of
        Inl (HTTPException code d) \<Rightarrow> Inl (HTTPException 400 d)
      | Inl (Uncaught e) \<Rightarrow> Inl (HTTPException 500 (InternalError e))
      | Inr r \<Rightarrow> Inr r)"

section \<open>The libraries on the inputs of the examples\<close>

text \<open>
  \<^verbatim>\<open>numexpr.evaluate(expression, local_dict=variables)\<close> followed by \<^verbatim>\<open>.item()\<close>, on the
  expressions that are sums \<^verbatim>\<open>t1 + ... + tn\<close> of names and decimal literals. A name here
  is spelled in camel case (a lower-case letter first, letters and digits, one upper-case
  letter at least): no keyword of Python, no function of numexpr and no global of
  \<^verbatim>\<open>main.py\<close> is. numexpr looks every name up before it computes, in sorted order, and
  raises \<^verbatim>\<open>KeyError\<close> at the first one that is bound nowhere. The values covered are whole
  numbers (\<^verbatim>\<open>int\<close> or \<^verbatim>\<open>float\<close>) whose absolute values add up to less than \<open>2^31\<close>, on which
  every addition is exact; the sum is a \<^verbatim>\<open>float\<close> when an operand is one. What the library
  does elsewhere is left open (\<open>None\<close>).
\<close>

definition is_lower :: "char \<Rightarrow> bool" where
  "is_lower c \<longleftrightarrow> c \<in> set ''abcdefghijklmnopqrstuvwxyz''"

definition is_upper :: "char \<Rightarrow> bool" where
  "is_upper c \<longleftrightarrow> c \<in> set ''ABCDEFGHIJKLMNOPQRSTUVWXYZ''"

definition is_camel_name :: "string \<Rightarrow> bool" where
  "is_camel_name s \<longleftrightarrow>
     s \<noteq> [] \<and> is_lower (hd s) \<and> list_all (\<lambda>c. is_alpha c \<or> is_digit c) s \<and> list_ex is_upper s"

definition is_int_literal :: "string \<Rightarrow> bool" where
  "is_int_literal s \<longleftrightarrow>
     s \<noteq> [] \<and> list_all is_digit s \<and> (hd s \<noteq> CHR ''0'' \<or> s = ''0'') \<and> length s \<le> 9"

fun split_on :: "char \<Rightarrow> string \<Rightarrow> string list" where
  "split_on c [] = [[]]"
| "split_on c (x # xs) =
     (if x = c then [] # split_on c xs
      else (case split_on c xs of [] \<Rightarrow> [[x]] | p # ps \<Rightarrow> (x # p) # ps))"

definition operands :: "string \<Rightarrow> string list option" where
  "operands e =
     (let ps = map (strip_chars (\<lambda>c. c = CHR '' '')) (split_on (CHR ''+'') e)
      in if e \<noteq> [] \<and> hd e \<noteq> CHR '' '' \<and> list_all (\<lambda>p. is_camel_name p \<or> is_int_literal p) ps
         then Some ps else None)"

text \<open>The names an expression of the fragment refers to.\<close>

definition expression_names :: "string \<Rightarrow> string set" where
  "expression_names e = (case operands e of None \<Rightarrow> {} | Some ps \<Rightarrow> set (filter is_camel_name ps))"

fun str_le :: "string \<Rightarrow> string \<Rightarrow> bool" where
  "str_le [] ys = True"
| "str_le (x # xs) [] = False"
| "str_le (x # xs) (y # ys) = (if x = y then str_le xs ys else (of_char x :: nat) < of_char y)"

fun least_name :: "string \<Rightarrow> string list \<Rightarrow> string" where
  "least_name m [] = m"
| "least_name m (n # ns) = least_name (if str_le m n then m else n) ns"

definition operand_value :: "pydict \<Rightarrow> string \<Rightarrow> pyval option" where
  "operand_value d p = (if is_int_literal p then Some (VInt (int (digits_value p))) else map_of d p)"

definition whole_number :: "pyval \<Rightarrow> int option" where
  "whole_number v =
     (case v of
        VInt n \<Rightarrow> Some n
      | VFloat (Finite q) \<Rightarrow> if of_int \<lfloor>q\<rfloor> = q then Some \<lfloor>q\<rfloor> else None
      | _ \<Rightarrow> None)"

definition is_float :: "pyval option \<Rightarrow> bool" where
  "is_float v = (case v of Some (VFloat x) \<Rightarrow> True | _ \<Rightarrow> False)"

definition numexpr_fragment :: "string \<Rightarrow> pydict \<Rightarrow> (exn + pyval) option" where
  "numexpr_fragment e d =
     (case operands e of
        None \<Rightarrow> None
      | Some ps \<Rightarrow>
          (case filter (\<lambda>p. is_camel_name p \<and> map_of d p = None) ps of
             m # ms \<Rightarrow> Some (Inl (KeyError (least_name m ms)))
           | [] \<Rightarrow>
               (case those (map (\<lambda>p. Option.bind (operand_value d p) whole_number) ps) of
                  None \<Rightarrow> None
                | Some ns \<Rightarrow>
                    if sum_list (map abs ns) < 2 ^ 31 then
                      Some (Inr (if list_ex (\<lambda>p. is_float (operand_value d p)) ps
                                 then VFloat (Finite (of_int (sum_list ns)))
                                 else VInt (sum_list ns)))
                    else None)))"

definition numexpr_evaluate :: evaluator where
  "numexpr_evaluate e d = (case numexpr_fragment e d of Some r \<Rightarrow> r | None \<Rightarrow> undefined)"

text \<open>
  \<^verbatim>\<open>dateutil.parser.parse\<close> on calendar dates written \<^verbatim>\<open>YYYY-MM-DD\<close> (year from 1000, day up
  to 28); what it does on other text is left open.
\<close>

definition parse_date_fragment :: "string \<Rightarrow> (date_error + datetime) option" where
  "parse_date_fragment s =
     (let y = take 4 s; m = take 2 (drop 5 s); d = drop 8 s
      in if length s = 10 \<and> s ! 4 = CHR ''-'' \<and> s ! 7 = CHR ''-'' \<and> list_all is_digit (y @ m @ d)
            \<and> hd s \<noteq> CHR ''0'' \<and> 1 \<le> digits_value m \<and> digits_value m \<le> 12
            \<and> 1 \<le> digits_value d \<and> digits_value d \<le> 28
         then Some (Inr (Datetime (int (digits_value y)) (int (digits_value m))
                           (int (digits_value d)) 0 0 0 0))
         else None)"

definition parse_date :: date_parser where
  "parse_date s = (case parse_date_fragment s of Some r \<Rightarrow> r | None \<Rightarrow> undefined)"

section \<open>The percentage rule as the specification words it\<close>

text \<open>
  The specification says of a text ending in \<^verbatim>\<open>%\<close> that the suffix is stripped and the
  remainder parsed as a float. Read to the letter: the text without its last character,
  given to \<^verbatim>\<open>float\<close>. It is compared with \<open>convert_variable\<close> below.
\<close>

definition percentage_as_worded :: "string \<Rightarrow> exn + pyval" where
  "percentage_as_worded s = py_float (VStr (butlast s))"

section \<open>Properties of the conversion\<close>

lemma float_of_string_error:
  "float_of_string s = Inl e \<Longrightarrow> e = ValueError (could_not_convert s)"
  by (auto simp: float_of_string_def Let_def split: option.splits if_splits)

lemma py_float_error:
  "py_float v = Inl e \<Longrightarrow>
     e = OverflowError int_too_large \<or> e = TypeError (float_argument v) \<or>
     (\<exists>s. v = VStr s \<and> e = ValueError (could_not_convert s))"
  by (cases v) (auto split: if_splits sum.splits dest: float_of_string_error)

lemma py_float_not_unsupported: "py_float v \<noteq> Inl (ValueError (unsupported_type t))"
  using py_float_error[of v "ValueError (unsupported_type t)"] by auto

lemma parse_currency_error:
  "parse_currency s = Inl e \<Longrightarrow>
     e = ValueError (invalid_currency s) \<or> (\<exists>g. e = ValueError (could_not_convert g))"
  unfolding parse_currency_def
  by (cases "currency_pattern (remove_char CHR '','' s)")
     (auto split: sum.splits dest: float_of_string_error)

lemma parse_currency_not_unsupported: "parse_currency s \<noteq> Inl (ValueError (unsupported_type t))"
  using parse_currency_error[of s "ValueError (unsupported_type t)"] by auto

lemma convert_number: "convert_variable pd v ''number'' = py_float v"
  by (simp add: convert_variable_def)

lemma convert_boolean: "convert_variable pd v ''boolean'' = Inr (VBool (py_bool v))"
  by (simp add: convert_variable_def)

lemma convert_datetime_text:
  "convert_variable pd (VStr s) ''datetime'' =
     (case pd s of
        Inl (ParserError m) \<Rightarrow> Inl (ValueError (library_message m))
      | Inl (DateOverflowError m) \<Rightarrow> Inl (OverflowError (library_message m))
      | Inr d \<Rightarrow> Inr (VDatetime d))"
  by (simp add: convert_variable_def)

lemma convert_datetime_other:
  "(\<And>s. v \<noteq> VStr s) \<Longrightarrow> convert_variable pd v ''datetime'' = Inr v"
  by (cases v) (auto simp: convert_variable_def)

lemma convert_percentage_text:
  "convert_variable pd (VStr s) ''percentage'' =
     (if endswith s (CHR ''%'') then py_float (VStr (strip_chars (\<lambda>c. c = CHR ''%'') s))
      else py_float (VStr s))"
  by (simp add: convert_variable_def)

lemma convert_percentage_other:
  "(\<And>s. v \<noteq> VStr s) \<Longrightarrow> convert_variable pd v ''percentage'' = py_float v"
  by (cases v) (auto simp: convert_variable_def)



lemma number_supported:
  "convert_variable pd v ''number'' \<noteq> Inl (ValueError (unsupported_type t'))"
  by (simp add: convert_number py_float_not_unsupported del: py_float.simps)

lemma boolean_supported:
  "convert_variable pd v ''boolean'' \<noteq> Inl (ValueError (unsupported_type t'))"
  by (simp add: convert_boolean)

lemma datetime_supported:
  "convert_variable pd v ''datetime'' \<noteq> Inl (ValueError (unsupported_type t'))"
  by (cases v) (auto simp: convert_variable_def split: sum.splits date_error.splits)

lemma percentage_supported:
  "convert_variable pd v ''percentage'' \<noteq> Inl (ValueError (unsupported_type t'))"
  by (cases v)
     (simp_all add: convert_variable_def py_float_not_unsupported del: py_float.simps)

lemma currency_supported:
  "convert_variable pd v ''currency'' \<noteq> Inl (ValueError (unsupported_type t'))"
  by (cases v)
     (simp_all add: convert_variable_def py_float_not_unsupported
        parse_currency_not_unsupported del: py_float.simps)














lemma digit_value_le: "is_digit c \<Longrightarrow> digit_value c \<le> 9"
  by (auto simp: is_digit_def digit_value_def)

lemma digits_value_snoc: "digits_value (ds @ [c]) = 10 * digits_value ds + digit_value c"
  by (simp add: digits_value_def)

lemma digits_value_bound: "list_all is_digit ds \<Longrightarrow> digits_value ds < 10 ^ length ds"
proof (induction ds rule: rev_induct)
  case Nil
  then show ?case by (simp add: digits_value_def)
next
  case (snoc c ds)
  then have "digits_value ds < 10 ^ length ds" and "digit_value c \<le> 9"
    by (simp_all add: digit_value_le)
  then show ?case
    by (simp add: digits_value_snoc)
qed

lemma to_double_zero: "to_double 0 = Finite 0"
  by (simp add: to_double_def)

lemma to_double_range:
  "1 / 10 ^ 300 \<le> \<bar>q\<bar> \<Longrightarrow> \<bar>q\<bar> \<le> 10 ^ 300 \<Longrightarrow> to_double q = Finite q"
proof -
  assume a: "1 / 10 ^ 300 \<le> \<bar>q\<bar>" and b: "\<bar>q\<bar> \<le> 10 ^ 300"
  have small: "(1::rat) / 2 ^ 1075 < 1 / 10 ^ 300"
    by simp
  have big: "(10::rat) ^ 300 < 2 ^ 1024 - 2 ^ 970"
    by simp
  from a b small big have "\<not> 2 ^ 1024 - 2 ^ 970 \<le> \<bar>q\<bar>" "\<not> \<bar>q\<bar> \<le> 1 / 2 ^ 1075"
    by linarith+
  then show ?thesis
    by (simp add: to_double_def)
qed

lemma to_double_mid:
  "1 \<le> \<bar>q\<bar> \<Longrightarrow> \<bar>q\<bar> \<le> 10 ^ 300 \<Longrightarrow> to_double q = Finite q"
proof -
  assume a: "1 \<le> \<bar>q\<bar>" and b: "\<bar>q\<bar> \<le> 10 ^ 300"
  have "(1::rat) / 10 ^ 300 \<le> 1"
    by simp
  with a have "1 / 10 ^ 300 \<le> \<bar>q\<bar>"
    by linarith
  then show ?thesis
    using b by (rule to_double_range)
qed

lemma to_double_of_nat: "n < 10 ^ 300 \<Longrightarrow> to_double (of_nat n) = Finite (of_nat n)"
proof (cases "n = 0")
  case True
  then show ?thesis by (simp add: to_double_zero)
next
  case False
  assume "n < 10 ^ 300"
  then have "(of_nat n :: rat) \<le> of_nat (10 ^ 300)"
    by (metis less_imp_le of_nat_le_iff)
  then have "\<bar>of_nat n :: rat\<bar> \<le> 10 ^ 300"
    by simp
  moreover from False have "1 \<le> \<bar>of_nat n :: rat\<bar>"
    by simp
  ultimately show ?thesis
    by (rule to_double_mid[rotated])
qed

lemma digit_not_space: "is_digit c \<Longrightarrow> \<not> is_space c"
  by (auto simp: is_digit_def is_space_def)

lemma digit_not_underscore: "is_digit c \<Longrightarrow> c \<noteq> CHR ''_''"
  by (auto simp: is_digit_def)

lemma digit_to_lower: "is_digit c \<Longrightarrow> to_lower c = c"
  by (auto simp: is_digit_def to_lower_def)

lemma strip_chars_id:
  assumes "s \<noteq> []" "\<not> p (hd s)" "\<not> p (last s)"
  shows "strip_chars p s = s"
proof -
  from assms have "dropWhile p s = s"
    by (cases s) auto
  moreover from assms have "dropWhile p (rev s) = rev s"
    by (cases "rev s") (auto simp: hd_rev)
  ultimately show ?thesis
    by (simp add: strip_chars_def)
qed

lemma drop_underscores_id:
  "CHR ''_'' \<notin> set s \<Longrightarrow> prev \<noteq> CHR ''_'' \<Longrightarrow> drop_underscores prev s = Some s"
  by (induction s arbitrary: prev) auto

lemma float_of_digits:
  assumes "ds \<noteq> []" "list_all is_digit ds" "length ds \<le> 300"
  shows "float_of_string ds = Inr (Finite (of_nat (digits_value ds)))"
proof -
  from assms have hd: "is_digit (hd ds)" and last: "is_digit (last ds)"
    by (auto simp: list_all_iff)
  have strip: "strip_chars is_space ds = ds"
    using assms(1) hd last by (intro strip_chars_id) (auto dest: digit_not_space)
  have und: "drop_underscores (CHR 0x00) ds = Some ds"
    using assms(2) by (intro drop_underscores_id) (auto simp: list_all_iff dest: digit_not_underscore)
  have sign: "hd ds \<noteq> CHR ''-''" "hd ds \<noteq> CHR ''+''"
    using hd by (auto simp: is_digit_def)
  have low: "map to_lower ds = ds"
    using assms(2) by (intro map_idI) (auto simp: list_all_iff digit_to_lower)
  have other: "ds \<noteq> t" if "\<not> is_digit (hd t)" for t
    using hd that by blast
  have special: "ds \<noteq> ''inf''" "ds \<noteq> ''infinity''" "ds \<noteq> ''nan''"
    by (rule other, simp add: is_digit_def)+
  have tw: "takeWhile is_digit ds = ds" "dropWhile is_digit ds = []"
    using assms(2) by (auto simp: list_all_iff)
  have dec: "parse_decimal ds = Some (of_nat (digits_value ds))"
    using assms(1) by (simp add: parse_decimal_def tw parse_exponent_def)
  have "digits_value ds < 10 ^ length ds"
    using assms(2) by (rule digits_value_bound)
  also have "\<dots> \<le> (10::nat) ^ 300"
    using assms(3) by (intro power_increasing) auto
  finally have "to_double (of_nat (digits_value ds)) = Finite (of_nat (digits_value ds))"
    by (rule to_double_of_nat)
  with strip und sign low special dec assms(1) show ?thesis
    by (simp add: float_of_string_def Let_def)
qed

lemma strip_percent_digits:
  assumes "ds \<noteq> []" "list_all is_digit ds"
  shows "strip_chars (\<lambda>c. c = CHR ''%'') (ds @ ''%'') = ds"
proof -
  have no: "c \<noteq> CHR ''%''" if "is_digit c" for c
    using that by (auto simp: is_digit_def)
  from assms have ends: "is_digit (hd ds)" "is_digit (last ds)"
    by (auto simp: list_all_iff)
  have hd: "hd ds \<noteq> CHR ''%''"
    using ends(1) by (rule no)
  have last: "last ds \<noteq> CHR ''%''"
    using ends(2) by (rule no)
  from assms(1) hd have "dropWhile (\<lambda>c. c = CHR ''%'') (ds @ ''%'') = ds @ ''%''"
    by (cases ds) auto
  moreover from assms(1) last have "dropWhile (\<lambda>c. c = CHR ''%'') (rev ds) = rev ds"
    by (cases "rev ds") (auto simp: hd_rev)
  ultimately show ?thesis
    by (simp add: strip_chars_def)
qed

lemma percentage_of_digits:
  assumes "ds \<noteq> []" "list_all is_digit ds" "length ds \<le> 300"
  shows "convert_variable pd (VStr (ds @ ''%'')) ''percentage'' =
           Inr (VFloat (Finite (of_nat (digits_value ds))))"
  using assms
  by (simp add: convert_percentage_text endswith_def strip_percent_digits float_of_digits)

section \<open>Properties of validation\<close>

lemma check_inputs_ok:
  "check_inputs av evd out vs = Inr () \<longleftrightarrow> (\<forall>v\<in>set vs. varName v \<in> av \<or> varName v \<in> evd)"
  by (induction vs) auto

lemma check_inputs_error:
  "check_inputs av evd out vs = Inl e \<Longrightarrow>
     \<exists>n. e = HTTPException 400 (VariableNotAvailable n out) \<and> n \<in> varName ` set vs
       \<and> n \<notin> av \<and> n \<notin> evd"
  by (induction vs) (auto split: if_splits)

lemma validate_loop_append:
  "validate_loop ne av evd (xs @ ys) =
     (case validate_loop ne av evd xs of
        Inl e \<Rightarrow> Inl e
      | Inr _ \<Rightarrow> validate_loop ne av (evd \<union> outputVar ` set xs) ys)"
proof (induction xs arbitrary: evd)
  case Nil
  then show ?case by simp
next
  case (Cons f fs)
  show ?case
  proof (cases "check_inputs av evd (outputVar f) (inputs f)")
    case (Inl e)
    then show ?thesis by simp
  next
    case (Inr u)
    show ?thesis
    proof (cases "outputVar f \<in> set (map varName (inputs f))")
      case True
      with Inr show ?thesis by simp
    next
      case False
      show ?thesis
      proof (cases "ne (expression f) (placeholders (inputs f))")
        case (Inl e)
        with Inr False show ?thesis by simp
      next
        case (Inr r)
        with \<open>check_inputs av evd (outputVar f) (inputs f) = Inr u\<close> False
          Cons.IH[of "insert (outputVar f) evd"]
        show ?thesis by (simp split: sum.splits)
      qed
    qed
  qed
qed

lemma validate_loop_self_reference:
  assumes "outputVar f \<in> set (map varName (inputs f))"
  shows "validate_loop ne av evd (f # fs) =
     (case check_inputs av evd (outputVar f) (inputs f) of
        Inl e \<Rightarrow> Inl e
      | Inr _ \<Rightarrow> Inl (HTTPException 400 (SelfReference (outputVar f))))"
  using assms by (simp split: sum.splits)

lemma validate_loop_rejects_self_reference:
  assumes "outputVar f \<in> set (map varName (inputs f))"
  shows "validate_loop ne av evd (xs @ f # ys) \<noteq> Inr ()"
proof (cases "validate_loop ne av evd xs")
  case (Inl e)
  then show ?thesis by (simp add: validate_loop_append)
next
  case (Inr u)
  then show ?thesis
    using validate_loop_self_reference[OF assms, of ne av "evd \<union> outputVar ` set xs" ys]
    by (simp add: validate_loop_append split: sum.splits)
qed

lemma validate_loop_cong:
  "(\<And>g. g \<in> set fs \<Longrightarrow>
      ne (expression g) (placeholders (inputs g)) = ne' (expression g) (placeholders (inputs g))) \<Longrightarrow>
   validate_loop ne av evd fs = validate_loop ne' av evd fs"
proof (induction fs arbitrary: evd)
  case Nil
  then show ?case by simp
next
  case (Cons f fs)
  have "ne (expression f) (placeholders (inputs f)) = ne' (expression f) (placeholders (inputs f))"
    by (rule Cons.prems) simp
  moreover have "validate_loop ne av evd' fs = validate_loop ne' av evd' fs" for evd'
    by (rule Cons.IH) (simp add: Cons.prems)
  ultimately show ?case
    by (simp split: sum.splits)
qed

lemma map_of_fold_placeholders:
  "map_of (foldl (\<lambda>d v. AList.update (varName v) (VInt 1) d) d0 vs) n =
     (if n \<in> varName ` set vs then Some (VInt 1) else map_of d0 n)"
  by (induction vs arbitrary: d0) (auto simp: update_conv')

lemma map_of_placeholders:
  "map_of (placeholders vs) n = (if n \<in> varName ` set vs then Some (VInt 1) else None)"
  by (simp add: placeholders_def map_of_fold_placeholders)

lemma validate_loop_syntax_error:
  assumes "check_inputs av evd (outputVar f) (inputs f) = Inr ()"
    and "outputVar f \<notin> varName ` set (inputs f)"
    and "ne (expression f) (placeholders (inputs f)) = Inl x"
  shows "validate_loop ne av evd (f # fs) =
           Inl (HTTPException 400 (FormulaSyntaxError (outputVar f) (expression f) x))"
  using assms by simp

lemma numexpr_evaluate_unbound:
  assumes "n \<in> expression_names e" and "map_of d n = None"
  shows "\<exists>x. numexpr_evaluate e d = Inl x"
proof -
  from assms(1) obtain ps where ps: "operands e = Some ps" and n: "n \<in> set ps" "is_camel_name n"
    by (auto simp: expression_names_def split: option.splits)
  with assms(2) have "n \<in> set (filter (\<lambda>p. is_camel_name p \<and> map_of d p = None) ps)"
    by simp
  then obtain m ms where "filter (\<lambda>p. is_camel_name p \<and> map_of d p = None) ps = m # ms"
    by (cases "filter (\<lambda>p. is_camel_name p \<and> map_of d p = None) ps") auto
  with ps show ?thesis
    by (simp add: numexpr_evaluate_def numexpr_fragment_def)
qed

lemma check_inputs_append:
  "check_inputs av evd out (xs @ ys) =
     (case check_inputs av evd out xs of Inl e \<Rightarrow> Inl e | Inr _ \<Rightarrow> check_inputs av evd out ys)"
  by (induction xs) auto

section \<open>Properties of execution\<close>

lemma prepare_variables_append:
  "prepare_variables pd item local_item vars (xs @ ys) =
     (case prepare_variables pd item local_item vars xs of
        Inl e \<Rightarrow> Inl e
      | Inr vars' \<Rightarrow> prepare_variables pd item local_item vars' ys)"
  by (induction xs arbitrary: vars) (auto split: option.splits sum.splits)

lemma run_formulas_append:
  "run_formulas ne pd item st (xs @ ys) =
     (case run_formulas ne pd item st xs of
        Inl e \<Rightarrow> Inl e
      | Inr st' \<Rightarrow> run_formulas ne pd item st' ys)"
  by (induction xs arbitrary: st) (auto split: sum.splits)

lemma run_items_append:
  "run_items ne pd fs res (xs @ ys) =
     (case run_items ne pd fs res xs of
        Inl e \<Rightarrow> Inl e
      | Inr res' \<Rightarrow> run_items ne pd fs res' ys)"
  by (induction xs arbitrary: res) (auto split: sum.splits)

lemma apply_formula_scope:
  assumes "apply_formula ne pd item st f = Inr st'"
  shows "\<exists>variables v series.
           prepare_variables pd item (fst st) [] (inputs f) = Inr variables
         \<and> ne (expression f) variables = Inr v
         \<and> map_of (snd st) (outputVar f) = Some series
         \<and> map_of (fst st') = (map_of (fst st))(outputVar f \<mapsto> v)
         \<and> map_of (snd st') = (map_of (snd st))(outputVar f \<mapsto> series @ [v])"
  using assms
  by (auto simp: apply_formula_def update_conv' split: sum.splits option.splits)

lemma run_formulas_scope_names:
  "run_formulas ne pd item st fs = Inr st' \<Longrightarrow>
     (map_of (fst st') n = None) = (map_of (fst st) n = None \<and> n \<notin> outputVar ` set fs)"
proof (induction fs arbitrary: st)
  case Nil
  then show ?case by simp
next
  case (Cons f fs)
  from Cons.prems obtain st1 where a: "apply_formula ne pd item st f = Inr st1"
    and r: "run_formulas ne pd item st1 fs = Inr st'"
    by (auto split: sum.splits)
  from apply_formula_scope[OF a] obtain v where
    "map_of (fst st1) = (map_of (fst st))(outputVar f \<mapsto> v)"
    by blast
  with Cons.IH[OF r] show ?case by auto
qed

lemma prepare_variables_missing:
  assumes "prepare_variables pd item local_item vars seen = Inr variables"
    and "map_of local_item (varName v) = None"
  shows "prepare_variables pd item local_item vars (seen @ v # unseen) =
           Inl (HTTPException 400 (VariableNotFound (varName v) (item_id item)))"
  using assms by (simp add: prepare_variables_append)

lemma prepare_variables_unconvertible:
  assumes "prepare_variables pd item local_item vars seen = Inr variables"
    and "map_of local_item (varName v) = Some x"
    and "convert_variable pd x (varType v) = Inl e"
  shows "prepare_variables pd item local_item vars (seen @ v # unseen) =
           Inl (HTTPException 400 (ConversionError e))"
  using assms by (simp add: prepare_variables_append)

lemma map_of_fold_empty_results:
  "map_of (foldl (\<lambda>d f. AList.update (outputVar f) [] d) d0 fs) k =
     (if k \<in> outputVar ` set fs then Some [] else map_of d0 k)"
  by (induction fs arbitrary: d0) (auto simp: update_conv')

lemma map_of_empty_results:
  "map_of (empty_results fs) k = (if k \<in> outputVar ` set fs then Some [] else None)"
  by (simp add: empty_results_def map_of_fold_empty_results)

lemma run_formulas_series:
  "run_formulas ne pd item st fs = Inr st' \<Longrightarrow> map_of (snd st) k = Some s \<Longrightarrow>
     \<exists>t. map_of (snd st') k = Some (s @ t) \<and> length t = count_list (map outputVar fs) k"
proof (induction fs arbitrary: st s)
  case Nil
  then show ?case by simp
next
  case (Cons f fs)
  from Cons.prems(1) obtain st1 where a: "apply_formula ne pd item st f = Inr st1"
    and r: "run_formulas ne pd item st1 fs = Inr st'"
    by (auto split: sum.splits)
  from apply_formula_scope[OF a] obtain v series where
    old: "map_of (snd st) (outputVar f) = Some series"
    and new: "map_of (snd st1) = (map_of (snd st))(outputVar f \<mapsto> series @ [v])"
    by blast
  show ?case
  proof (cases "k = outputVar f")
    case True
    with old Cons.prems(2) new have "map_of (snd st1) k = Some (s @ [v])"
      by simp
    from Cons.IH[OF r this] True show ?thesis
      by auto
  next
    case False
    with new Cons.prems(2) have "map_of (snd st1) k = Some s"
      by simp
    from Cons.IH[OF r this] False show ?thesis
      by auto
  qed
qed

lemma run_items_series:
  "run_items ne pd fs res items = Inr res' \<Longrightarrow> map_of res k = Some s \<Longrightarrow>
     \<exists>t. map_of res' k = Some (s @ t) \<and> length t = length items * count_list (map outputVar fs) k"
proof (induction items arbitrary: res s)
  case Nil
  then show ?case by simp
next
  case (Cons item items)
  from Cons.prems(1) obtain st where f: "run_formulas ne pd item (item, res) fs = Inr st"
    and r: "run_items ne pd fs (snd st) items = Inr res'"
    by (auto split: sum.splits)
  from run_formulas_series[OF f, of k s] Cons.prems(2) obtain t where
    t: "map_of (snd st) k = Some (s @ t)" "length t = count_list (map outputVar fs) k"
    by auto
  from Cons.IH[OF r t(1)] obtain u where
    "map_of res' k = Some ((s @ t) @ u)"
    "length u = length items * count_list (map outputVar fs) k"
    by blast
  with t(2) have "map_of res' k = Some (s @ (t @ u))"
    "length (t @ u) = length (item # items) * count_list (map outputVar fs) k"
    by simp_all
  then show ?case by blast
qed

lemma count_list_distinct: "distinct xs \<Longrightarrow> x \<in> set xs \<Longrightarrow> count_list xs x = 1"
  by (induction xs) (auto simp: count_list_0_iff)

section \<open>The examples, evaluated\<close>

text \<open>
  The requests of \<^verbatim>\<open>src/test/test_main.py\<close> and their variations are evaluated by
  rewriting with the definitions; the facts below are the single calls they make.
\<close>

lemmas char_class_defs = is_digit_def is_alpha_def is_lower_def is_upper_def is_space_def re_space_def

lemmas fragment_defs = numexpr_evaluate_def numexpr_fragment_def operands_def strip_chars_def
  is_camel_name_def is_int_literal_def operand_value_def whole_number_def is_float_def
  digits_value_def digit_value_def expression_names_def Let_def

lemmas float_defs = float_of_string_def strip_chars_def parse_decimal_def parse_exponent_def
  digits_value_def digit_value_def to_lower_def to_double_range Let_def

lemmas service_defs = evaluate_formulas_def evaluate_body_def validate_formulas_def
  placeholders_def empty_results_def apply_formula_def item_id_def convert_number

lemma add_ten_probe: "numexpr_evaluate ''fieldA + 10'' [(''fieldA'', VInt 1)] = Inr (VInt 11)"
  by (simp add: fragment_defs char_class_defs)

lemma add_ten_first:
  "numexpr_evaluate ''fieldA + 10'' [(''fieldA'', VFloat (Finite 10))] = Inr (VFloat (Finite 20))"
  by (simp add: fragment_defs char_class_defs)

lemma add_ten_second:
  "numexpr_evaluate ''fieldA + 10'' [(''fieldA'', VFloat (Finite 20))] = Inr (VFloat (Finite 30))"
  by (simp add: fragment_defs char_class_defs)

lemma add_fields_probe:
  "numexpr_evaluate ''fieldA + fieldB'' [(''fieldA'', VInt 1), (''fieldB'', VInt 1)] = Inr (VInt 2)"
  by (simp add: fragment_defs char_class_defs)

lemma add_fields_first:
  "numexpr_evaluate ''fieldA + fieldB''
     [(''fieldA'', VFloat (Finite 10)), (''fieldB'', VFloat (Finite 30))] = Inr (VFloat (Finite 40))"
  by (simp add: fragment_defs char_class_defs)

lemma add_fields_undeclared:
  "numexpr_evaluate ''fieldA + fieldB'' [(''fieldA'', VInt 1)] = Inl (KeyError ''fieldB'')"
  by (simp add: fragment_defs char_class_defs)

lemma chain_probe:
  "numexpr_evaluate ''resultA + fieldA'' [(''resultA'', VInt 1), (''fieldA'', VInt 1)] = Inr (VInt 2)"
  by (simp add: fragment_defs char_class_defs)

lemma chain_value:
  "numexpr_evaluate ''resultA + fieldA''
     [(''resultA'', VFloat (Finite 20)), (''fieldA'', VFloat (Finite 10))] = Inr (VFloat (Finite 30))"
  by (simp add: fragment_defs char_class_defs)

lemma chain_undeclared:
  "numexpr_evaluate ''resultA + fieldA'' [(''fieldA'', VInt 1)] = Inl (KeyError ''resultA'')"
  by (simp add: fragment_defs char_class_defs)

lemma names_add_fields: "expression_names ''fieldA + fieldB'' = {''fieldA'', ''fieldB''}"
  by (simp add: fragment_defs char_class_defs)

lemma names_chain: "expression_names ''resultA + fieldA'' = {''resultA'', ''fieldA''}"
  by (simp add: fragment_defs char_class_defs)

lemma float_Ten: "float_of_string ''Ten'' = Inl (ValueError (could_not_convert ''Ten''))"
  by (simp add: float_defs char_class_defs)

lemma float_50: "float_of_string ''50'' = Inr (Finite 50)"
  by (simp add: float_defs char_class_defs)


lemma float_12_5: "float_of_string ''12.5'' = Inr (Finite 12.5)"
  by (simp add: float_defs char_class_defs)

lemma float_0_5: "float_of_string ''0.5'' = Inr (Finite 0.5)"
  by (simp add: float_defs char_class_defs)

lemma float_percent_50:
  "float_of_string ''%50'' = Inl (ValueError (could_not_convert ''%50''))"
  by (simp add: float_defs char_class_defs)


lemma py_float_small: "\<bar>n\<bar> < 2 ^ 1023 \<Longrightarrow> py_float (VInt n) = Inr (VFloat (Finite (of_int n)))"
proof -
  assume "\<bar>n\<bar> < 2 ^ 1023"
  then have "\<bar>of_int n :: rat\<bar> < 2 ^ 1023"
    by (metis of_int_abs of_int_less_iff of_int_numeral of_int_power)
  moreover have "(2::rat) ^ 1023 < 2 ^ 1024 - 2 ^ 970"
    by simp
  ultimately have "\<not> 2 ^ 1024 - 2 ^ 970 \<le> \<bar>of_int n :: rat\<bar>"
    by linarith
  then show ?thesis
    by simp
qed

lemma py_float_10: "py_float (VInt 10) = Inr (VFloat (Finite 10))"
  using py_float_small[of 10] by simp

lemma py_float_20: "py_float (VInt 20) = Inr (VFloat (Finite 20))"
  using py_float_small[of 20] by simp

lemma py_float_30: "py_float (VInt 30) = Inr (VFloat (Finite 30))"
  using py_float_small[of 30] by simp





section \<open>The claims\<close>

text \<open>
  C1. For the records \<^verbatim>\<open>[{fieldA: 10}, {fieldA: 20}]\<close> and the one formula
  \<^verbatim>\<open>result = fieldA + 10\<close> with the input \<^verbatim>\<open>fieldA: number\<close>, the request succeeds and the
  series of \<^verbatim>\<open>result\<close> is \<^verbatim>\<open>[20, 30]\<close>, one value for each record in the order of the
  records. The evaluator enters through what it returns on the three calls the request
  makes (the dry run with \<^verbatim>\<open>fieldA = 1\<close> and the two sums). In general, whenever a formula
  succeeds on a record, its result is appended to the series of its output name and
  bound to that name in the record's scope, and the remaining formulas of the record
  run in that scope.
\<close>

theorem sequential_chaining:
  assumes "ne ''fieldA + 10'' [(''fieldA'', VInt 1)] = Inr probe"
    and "ne ''fieldA + 10'' [(''fieldA'', VFloat (Finite 10))] = Inr (VFloat (Finite 20))"
    and "ne ''fieldA + 10'' [(''fieldA'', VFloat (Finite 20))] = Inr (VFloat (Finite 30))"
  shows "evaluate_formulas ne pd
           \<lparr>data = [[(''fieldA'', VInt 10)], [(''fieldA'', VInt 20)]],
            formulas = [\<lparr>outputVar = ''result'', expression = ''fieldA + 10'',
                         inputs = [\<lparr>varName = ''fieldA'', varType = ''number''\<rparr>]\<rparr>]\<rparr>
         = Inr \<lparr>results = [(''result'', [VFloat (Finite 20), VFloat (Finite 30)])],
                status = ''success'',
                message = ''The formulas were executed successfully with variable-based chaining.''\<rparr>
    \<and> (\<forall>item st f st' rest.
          apply_formula ne pd item st f = Inr st' \<longrightarrow>
            (\<exists>variables v series.
                prepare_variables pd item (fst st) [] (inputs f) = Inr variables
              \<and> ne (expression f) variables = Inr v
              \<and> map_of (snd st) (outputVar f) = Some series
              \<and> map_of (fst st') = (map_of (fst st))(outputVar f \<mapsto> v)
              \<and> map_of (snd st') = (map_of (snd st))(outputVar f \<mapsto> series @ [v]))
            \<and> run_formulas ne pd item st (f # rest) = run_formulas ne pd item st' rest)"
proof (intro conjI allI impI)
  show "evaluate_formulas ne pd
           \<lparr>data = [[(''fieldA'', VInt 10)], [(''fieldA'', VInt 20)]],
            formulas = [\<lparr>outputVar = ''result'', expression = ''fieldA + 10'',
                         inputs = [\<lparr>varName = ''fieldA'', varType = ''number''\<rparr>]\<rparr>]\<rparr>
         = Inr \<lparr>results = [(''result'', [VFloat (Finite 20), VFloat (Finite 30)])],
                status = ''success'',
                message = ''The formulas were executed successfully with variable-based chaining.''\<rparr>"
    using assms
    by (simp add: evaluate_formulas_def evaluate_body_def validate_formulas_def placeholders_def
        empty_results_def apply_formula_def convert_number)
next
  fix item st f st' rest
  assume a: "apply_formula ne pd item st f = Inr st'"
  from apply_formula_scope[OF a]
  show "\<exists>variables v series.
          prepare_variables pd item (fst st) [] (inputs f) = Inr variables
        \<and> ne (expression f) variables = Inr v
        \<and> map_of (snd st) (outputVar f) = Some series
        \<and> map_of (fst st') = (map_of (fst st))(outputVar f \<mapsto> v)
        \<and> map_of (snd st') = (map_of (snd st))(outputVar f \<mapsto> series @ [v])" .
  from a show "run_formulas ne pd item st (f # rest) = run_formulas ne pd item st' rest"
    by simp
qed

text \<open>
  The hypotheses hold of the evaluator of the examples; with it a second formula reads
  the output of the first.
\<close>

theorem sequential_chaining_witness:
  "numexpr_evaluate ''fieldA + 10'' [(''fieldA'', VInt 1)] = Inr (VInt 11)
   \<and> numexpr_evaluate ''fieldA + 10'' [(''fieldA'', VFloat (Finite 10))] = Inr (VFloat (Finite 20))
   \<and> numexpr_evaluate ''fieldA + 10'' [(''fieldA'', VFloat (Finite 20))] = Inr (VFloat (Finite 30))
   \<and> evaluate_formulas numexpr_evaluate parse_date
         \<lparr>data = [[(''fieldA'', VInt 10)], [(''fieldA'', VInt 20)]],
          formulas = [\<lparr>outputVar = ''result'', expression = ''fieldA + 10'',
                       inputs = [\<lparr>varName = ''fieldA'', varType = ''number''\<rparr>]\<rparr>]\<rparr>
       = Inr \<lparr>results = [(''result'', [VFloat (Finite 20), VFloat (Finite 30)])],
              status = ''success'',
              message = ''The formulas were executed successfully with variable-based chaining.''\<rparr>
   \<and> evaluate_formulas numexpr_evaluate parse_date
         \<lparr>data = [[(''fieldA'', VInt 10)]],
          formulas = [\<lparr>outputVar = ''resultA'', expression = ''fieldA + 10'',
                       inputs = [\<lparr>varName = ''fieldA'', varType = ''number''\<rparr>]\<rparr>,
                      \<lparr>outputVar = ''resultB'', expression = ''resultA + fieldA'',
                       inputs = [\<lparr>varName = ''resultA'', varType = ''number''\<rparr>,
                                 \<lparr>varName = ''fieldA'', varType = ''number''\<rparr>]\<rparr>]\<rparr>
       = Inr \<lparr>results = [(''resultA'', [VFloat (Finite 20)]), (''resultB'', [VFloat (Finite 30)])],
              status = ''success'',
              message = ''The formulas were executed successfully with variable-based chaining.''\<rparr>"
proof -
  note base = sequential_chaining[where ne = numexpr_evaluate and probe = "VInt 11" and pd = parse_date,
      OF add_ten_probe add_ten_first add_ten_second]
  have chain: "evaluate_formulas numexpr_evaluate parse_date
         \<lparr>data = [[(''fieldA'', VInt 10)]],
          formulas = [\<lparr>outputVar = ''resultA'', expression = ''fieldA + 10'',
                       inputs = [\<lparr>varName = ''fieldA'', varType = ''number''\<rparr>]\<rparr>,
                      \<lparr>outputVar = ''resultB'', expression = ''resultA + fieldA'',
                       inputs = [\<lparr>varName = ''resultA'', varType = ''number''\<rparr>,
                                 \<lparr>varName = ''fieldA'', varType = ''number''\<rparr>]\<rparr>]\<rparr>
       = Inr \<lparr>results = [(''resultA'', [VFloat (Finite 20)]), (''resultB'', [VFloat (Finite 30)])],
              status = ''success'',
              message = ''The formulas were executed successfully with variable-based chaining.''\<rparr>"
    by (simp add: service_defs add_ten_probe add_ten_first chain_probe chain_value py_float_10)
  from base chain show ?thesis
    by (simp add: add_ten_probe add_ten_first add_ten_second)
qed

text \<open>
  C2, as amended. Let a batch pass validation, let the records before some record and
  the formulas before some formula on that record run without failure, and let the
  inputs of the formula that come before one input convert. If that input names neither
  a field of the record nor the output of an earlier formula, the request fails with
  \<^verbatim>\<open>Variable '...' not found in data item with id ...\<close>, naming the variable and the
  record's \<^verbatim>\<open>id\<close>, and nothing else is returned: no series of any record, also of the
  records that ran before.
\<close>

theorem missing_field_aborts:
  assumes valid: "validate_formulas ne (before @ item # after) (passed @ f # todo) = Inr ()"
    and before: "run_items ne pd (passed @ f # todo) (empty_results (passed @ f # todo)) before = Inr res"
    and earlier: "run_formulas ne pd item (item, res) passed = Inr st"
    and split: "inputs f = seen @ v # unseen"
    and seen: "prepare_variables pd item (fst st) [] seen = Inr variables"
    and lacks: "map_of item (varName v) = None"
    and fresh: "varName v \<notin> outputVar ` set passed"
  shows "evaluate_formulas ne pd \<lparr>data = before @ item # after, formulas = passed @ f # todo\<rparr> =
           Inl (HTTPException 400 (VariableNotFound (varName v) (item_id item)))"
proof -
  let ?err = "HTTPException 400 (VariableNotFound (varName v) (item_id item))"
  from run_formulas_scope_names[OF earlier, of "varName v"] lacks fresh
  have "map_of (fst st) (varName v) = None"
    by simp
  from prepare_variables_missing[OF seen this, of unseen] split
  have "apply_formula ne pd item st f = Inl ?err"
    by (simp add: apply_formula_def)
  with earlier have "run_formulas ne pd item (item, res) (passed @ f # todo) = Inl ?err"
    by (simp add: run_formulas_append)
  with before
  have "run_items ne pd (passed @ f # todo) (empty_results (passed @ f # todo))
          (before @ item # after) = Inl ?err"
    by (simp add: run_items_append)
  with valid show ?thesis
    by (simp add: evaluate_formulas_def evaluate_body_def)
qed

text \<open>
  The request of \<^verbatim>\<open>test_missing_variable_in_data\<close>: the second record has no
  \<^verbatim>\<open>fieldB\<close>.
\<close>

theorem missing_field_aborts_witness:
  "validate_formulas numexpr_evaluate
      [[(''id'', VInt 1), (''fieldA'', VInt 10), (''fieldB'', VInt 30)],
       [(''id'', VInt 2), (''fieldA'', VInt 20)]]
      [\<lparr>outputVar = ''result'', expression = ''fieldA + fieldB'',
        inputs = [\<lparr>varName = ''fieldA'', varType = ''number''\<rparr>,
                  \<lparr>varName = ''fieldB'', varType = ''number''\<rparr>]\<rparr>] = Inr ()
   \<and> map_of [(''id'', VInt 2), (''fieldA'', VInt 20)] ''fieldB'' = None
   \<and> evaluate_formulas numexpr_evaluate parse_date
         \<lparr>data = [[(''id'', VInt 1), (''fieldA'', VInt 10), (''fieldB'', VInt 30)],
                  [(''id'', VInt 2), (''fieldA'', VInt 20)]],
          formulas = [\<lparr>outputVar = ''result'', expression = ''fieldA + fieldB'',
                       inputs = [\<lparr>varName = ''fieldA'', varType = ''number''\<rparr>,
                                 \<lparr>varName = ''fieldB'', varType = ''number''\<rparr>]\<rparr>]\<rparr>
       = Inl (HTTPException 400 (VariableNotFound ''fieldB'' (VInt 2)))"
proof -
  let ?fA = "\<lparr>varName = ''fieldA'', varType = ''number''\<rparr>"
  let ?fB = "\<lparr>varName = ''fieldB'', varType = ''number''\<rparr>"
  let ?f = "\<lparr>outputVar = ''result'', expression = ''fieldA + fieldB'', inputs = [?fA, ?fB]\<rparr>"
  let ?r1 = "[(''id'', VInt 1), (''fieldA'', VInt 10), (''fieldB'', VInt 30)]"
  let ?r2 = "[(''id'', VInt 2), (''fieldA'', VInt 20)]"
  have valid: "validate_formulas numexpr_evaluate ([?r1] @ ?r2 # []) ([] @ ?f # []) = Inr ()"
    by (simp add: service_defs add_fields_probe)
  have before: "run_items numexpr_evaluate parse_date ([] @ ?f # []) (empty_results ([] @ ?f # [])) [?r1]
      = Inr [(''result'', [VFloat (Finite 40)])]"
    by (simp add: service_defs add_fields_first py_float_10 py_float_30)
  have earlier: "run_formulas numexpr_evaluate parse_date ?r2 (?r2, [(''result'', [VFloat (Finite 40)])]) []
      = Inr (?r2, [(''result'', [VFloat (Finite 40)])])"
    by simp
  have split: "inputs ?f = [?fA] @ ?fB # []"
    by simp
  have seen: "prepare_variables parse_date ?r2 (fst (?r2, [(''result'', [VFloat (Finite 40)])])) [] [?fA]
      = Inr [(''fieldA'', VFloat (Finite 20))]"
    by (simp add: service_defs py_float_20)
  have lacks: "map_of ?r2 (varName ?fB) = None"
    by simp
  have fresh: "varName ?fB \<notin> outputVar ` set []"
    by simp
  from missing_field_aborts[OF valid before earlier split seen lacks fresh] valid lacks
  show ?thesis
    by (simp add: item_id_def)
qed

text \<open>
  C2 as stated fails: the second record lacks \<^verbatim>\<open>fieldB\<close>, and the request fails on the
  first record with the conversion error of \<^verbatim>\<open>Ten\<close>, not with the error of a missing
  field.
\<close>

theorem missing_field_masked_by_conversion_error:
  "map_of [(''id'', VInt 2), (''fieldA'', VInt 20)] ''fieldB'' = None
   \<and> evaluate_formulas numexpr_evaluate parse_date
         \<lparr>data = [[(''id'', VInt 1), (''fieldA'', VStr ''Ten''), (''fieldB'', VInt 30)],
                  [(''id'', VInt 2), (''fieldA'', VInt 20)]],
          formulas = [\<lparr>outputVar = ''result'', expression = ''fieldA + fieldB'',
                       inputs = [\<lparr>varName = ''fieldA'', varType = ''number''\<rparr>,
                                 \<lparr>varName = ''fieldB'', varType = ''number''\<rparr>]\<rparr>]\<rparr>
       = Inl (HTTPException 400 (ConversionError (ValueError (could_not_convert ''Ten''))))"
  by (simp add: service_defs add_fields_probe float_Ten)

text \<open>
  C3, as amended. A formula whose output name is among its own input names makes
  validation fail whatever the other formulas and the records are, and the request is
  never answered with results. The error is the one of self reference when the formulas
  before it validate and each of its input names is a field of the first record or the
  output of an earlier formula; the check that every input is available comes first.
\<close>

theorem self_reference_rejected:
  assumes "outputVar f \<in> set (map varName (inputs f))"
  shows "validate_formulas ne items (xs @ f # ys) \<noteq> Inr ()
    \<and> (\<forall>r. evaluate_formulas ne pd \<lparr>data = items, formulas = xs @ f # ys\<rparr> \<noteq> Inr r)
    \<and> (\<forall>first rest.
          items = first # rest \<longrightarrow>
          validate_formulas ne items xs = Inr () \<longrightarrow>
          (\<forall>v\<in>set (inputs f). varName v \<in> set (map fst first) \<or> varName v \<in> outputVar ` set xs) \<longrightarrow>
          validate_formulas ne items (xs @ f # ys) =
            Inl (HTTPException 400 (SelfReference (outputVar f))))"
proof (intro conjI allI impI)
  show a: "validate_formulas ne items (xs @ f # ys) \<noteq> Inr ()"
    using validate_loop_rejects_self_reference[OF assms]
    by (cases items) (simp_all add: validate_formulas_def)
  show "evaluate_formulas ne pd \<lparr>data = items, formulas = xs @ f # ys\<rparr> \<noteq> Inr r" for r
    using a
    by (auto simp: evaluate_formulas_def evaluate_body_def split: sum.splits raised.splits)
next
  fix first rest
  assume items: "items = first # rest"
    and pre: "validate_formulas ne items xs = Inr ()"
    and av: "\<forall>v\<in>set (inputs f). varName v \<in> set (map fst first) \<or> varName v \<in> outputVar ` set xs"
  from av have "check_inputs (set (map fst first)) ({} \<union> outputVar ` set xs) (outputVar f) (inputs f) = Inr ()"
    by (simp add: check_inputs_ok)
  with pre items show "validate_formulas ne items (xs @ f # ys) =
      Inl (HTTPException 400 (SelfReference (outputVar f)))"
    using validate_loop_self_reference[OF assms, of ne "set (map fst first)" "{} \<union> outputVar ` set xs" ys]
    by (simp add: validate_formulas_def validate_loop_append)
qed

text \<open>
  A formula after one that validates, with both of its inputs available.
\<close>

theorem self_reference_rejected_witness:
  "validate_formulas numexpr_evaluate [[(''fieldA'', VInt 10), (''total'', VInt 5)]]
        [\<lparr>outputVar = ''resultA'', expression = ''fieldA + 10'',
          inputs = [\<lparr>varName = ''fieldA'', varType = ''number''\<rparr>]\<rparr>] = Inr ()
   \<and> validate_formulas numexpr_evaluate [[(''fieldA'', VInt 10), (''total'', VInt 5)]]
        [\<lparr>outputVar = ''resultA'', expression = ''fieldA + 10'',
          inputs = [\<lparr>varName = ''fieldA'', varType = ''number''\<rparr>]\<rparr>,
         \<lparr>outputVar = ''total'', expression = ''total + resultA'',
          inputs = [\<lparr>varName = ''total'', varType = ''number''\<rparr>,
                    \<lparr>varName = ''resultA'', varType = ''number''\<rparr>]\<rparr>]
       = Inl (HTTPException 400 (SelfReference ''total''))"
proof -
  let ?f = "\<lparr>outputVar = ''total'', expression = ''total + resultA'',
          inputs = [\<lparr>varName = ''total'', varType = ''number''\<rparr>,
                    \<lparr>varName = ''resultA'', varType = ''number''\<rparr>]\<rparr>"
  let ?g = "\<lparr>outputVar = ''resultA'', expression = ''fieldA + 10'',
          inputs = [\<lparr>varName = ''fieldA'', varType = ''number''\<rparr>]\<rparr>"
  have self: "outputVar ?f \<in> set (map varName (inputs ?f))"
    by simp
  have pre: "validate_formulas numexpr_evaluate [[(''fieldA'', VInt 10), (''total'', VInt 5)]] [?g] = Inr ()"
    by (simp add: service_defs add_ten_probe)
  from self_reference_rejected[OF self, of numexpr_evaluate
      "[[(''fieldA'', VInt 10), (''total'', VInt 5)]]" "[?g]" "[]" parse_date] pre
  show ?thesis
    by simp
qed

text \<open>
  C3 as stated fails: \<^verbatim>\<open>total\<close> is an input of its own formula and no field of the
  record, and the error is that the variable is not available.
\<close>

theorem self_reference_reported_as_unavailable:
  "outputVar \<lparr>outputVar = ''total'', expression = ''total + fieldA'',
              inputs = [\<lparr>varName = ''total'', varType = ''number''\<rparr>,
                        \<lparr>varName = ''fieldA'', varType = ''number''\<rparr>]\<rparr>
     \<in> set (map varName (inputs \<lparr>outputVar = ''total'', expression = ''total + fieldA'',
              inputs = [\<lparr>varName = ''total'', varType = ''number''\<rparr>,
                        \<lparr>varName = ''fieldA'', varType = ''number''\<rparr>]\<rparr>))
   \<and> validate_formulas numexpr_evaluate [[(''fieldA'', VInt 10)]]
        [\<lparr>outputVar = ''total'', expression = ''total + fieldA'',
          inputs = [\<lparr>varName = ''total'', varType = ''number''\<rparr>,
                    \<lparr>varName = ''fieldA'', varType = ''number''\<rparr>]\<rparr>]
       = Inl (HTTPException 400 (VariableNotAvailable ''total'' ''total''))
   \<and> evaluate_formulas numexpr_evaluate parse_date
        \<lparr>data = [[(''fieldA'', VInt 10)]],
         formulas = [\<lparr>outputVar = ''total'', expression = ''total + fieldA'',
                      inputs = [\<lparr>varName = ''total'', varType = ''number''\<rparr>,
                                \<lparr>varName = ''fieldA'', varType = ''number''\<rparr>]\<rparr>]\<rparr>
       = Inl (HTTPException 400 (VariableNotAvailable ''total'' ''total''))"
  by (simp add: service_defs)

text \<open>
  C4. Validation reads the records only through the field names of the first one: two
  batches whose first records have the same set of field names get the same outcome of
  validation for the same formulas, whatever the values and the later records are.
\<close>

theorem validation_reads_first_keys:
  assumes "set (map fst first) = set (map fst first')"
  shows "validate_formulas ne (first # rest) fs = validate_formulas ne (first' # rest') fs"
  using assms by (simp add: validate_formulas_def)

text \<open>
  Two batches with the same field names in the first record, other values and other
  later records. The first passes validation and fails at execution on its second
  record, which has no \<^verbatim>\<open>fieldB\<close>.
\<close>

theorem validation_reads_first_keys_witness:
  "set (map fst [(''id'', VInt 1), (''fieldA'', VInt 10), (''fieldB'', VInt 30)])
     = set (map fst [(''fieldB'', VStr ''x''), (''fieldA'', VNone), (''id'', VStr ''k'')])
   \<and> validate_formulas numexpr_evaluate
        [[(''id'', VInt 1), (''fieldA'', VInt 10), (''fieldB'', VInt 30)],
         [(''id'', VInt 2), (''fieldA'', VInt 20)]]
        [\<lparr>outputVar = ''result'', expression = ''fieldA + fieldB'',
          inputs = [\<lparr>varName = ''fieldA'', varType = ''number''\<rparr>,
                    \<lparr>varName = ''fieldB'', varType = ''number''\<rparr>]\<rparr>]
     = validate_formulas numexpr_evaluate
        [[(''fieldB'', VStr ''x''), (''fieldA'', VNone), (''id'', VStr ''k'')]]
        [\<lparr>outputVar = ''result'', expression = ''fieldA + fieldB'',
          inputs = [\<lparr>varName = ''fieldA'', varType = ''number''\<rparr>,
                    \<lparr>varName = ''fieldB'', varType = ''number''\<rparr>]\<rparr>]
   \<and> validate_formulas numexpr_evaluate
        [[(''id'', VInt 1), (''fieldA'', VInt 10), (''fieldB'', VInt 30)],
         [(''id'', VInt 2), (''fieldA'', VInt 20)]]
        [\<lparr>outputVar = ''result'', expression = ''fieldA + fieldB'',
          inputs = [\<lparr>varName = ''fieldA'', varType = ''number''\<rparr>,
                    \<lparr>varName = ''fieldB'', varType = ''number''\<rparr>]\<rparr>]
     = Inr ()
   \<and> evaluate_formulas numexpr_evaluate parse_date
        \<lparr>data = [[(''id'', VInt 1), (''fieldA'', VInt 10), (''fieldB'', VInt 30)],
                 [(''id'', VInt 2), (''fieldA'', VInt 20)]],
         formulas = [\<lparr>outputVar = ''result'', expression = ''fieldA + fieldB'',
                      inputs = [\<lparr>varName = ''fieldA'', varType = ''number''\<rparr>,
                                \<lparr>varName = ''fieldB'', varType = ''number''\<rparr>]\<rparr>]\<rparr>
     = Inl (HTTPException 400 (VariableNotFound ''fieldB'' (VInt 2)))"
proof -
  have keys: "set (map fst [(''id'', VInt 1), (''fieldA'', VInt 10), (''fieldB'', VInt 30)])
     = set (map fst [(''fieldB'', VStr ''x''), (''fieldA'', VNone), (''id'', VStr ''k'')])"
    by auto
  note same = validation_reads_first_keys[OF keys, of numexpr_evaluate
      "[[(''id'', VInt 2), (''fieldA'', VInt 20)]]" _ "[]"]
  have run: "evaluate_formulas numexpr_evaluate parse_date
        \<lparr>data = [[(''id'', VInt 1), (''fieldA'', VInt 10), (''fieldB'', VInt 30)],
                 [(''id'', VInt 2), (''fieldA'', VInt 20)]],
         formulas = [\<lparr>outputVar = ''result'', expression = ''fieldA + fieldB'',
                      inputs = [\<lparr>varName = ''fieldA'', varType = ''number''\<rparr>,
                                \<lparr>varName = ''fieldB'', varType = ''number''\<rparr>]\<rparr>]\<rparr>
     = Inl (HTTPException 400 (VariableNotFound ''fieldB'' (VInt 2)))"
    by (simp add: service_defs add_fields_probe add_fields_first)
  have ok: "validate_formulas numexpr_evaluate
        [[(''id'', VInt 1), (''fieldA'', VInt 10), (''fieldB'', VInt 30)],
         [(''id'', VInt 2), (''fieldA'', VInt 20)]]
        [\<lparr>outputVar = ''result'', expression = ''fieldA + fieldB'',
          inputs = [\<lparr>varName = ''fieldA'', varType = ''number''\<rparr>,
                    \<lparr>varName = ''fieldB'', varType = ''number''\<rparr>]\<rparr>]
     = Inr ()"
    by (simp add: service_defs add_fields_probe)
  from keys same run ok show ?thesis
    by (intro conjI) blast+
qed

text \<open>
  C5, as amended. The inputs of a formula are taken in the declared order, each looked
  up and, when present, converted at once. When the inputs before one input convert,
  that input decides: absent, the step fails with the error of a missing variable;
  present and not convertible, with the conversion error. The inputs after it are not
  looked at.
\<close>

theorem first_failing_input_decides:
  assumes "prepare_variables pd item local_item [] seen = Inr variables"
  shows "(map_of local_item (varName v) = None \<longrightarrow>
            prepare_variables pd item local_item [] (seen @ v # unseen) =
              Inl (HTTPException 400 (VariableNotFound (varName v) (item_id item))))
       \<and> (\<forall>x e. map_of local_item (varName v) = Some x \<longrightarrow>
            convert_variable pd x (varType v) = Inl e \<longrightarrow>
            prepare_variables pd item local_item [] (seen @ v # unseen) =
              Inl (HTTPException 400 (ConversionError e)))"
  using prepare_variables_missing[OF assms] prepare_variables_unconvertible[OF assms]
  by blast

text \<open>
  Both orders of an absent and a not convertible input.
\<close>

theorem first_failing_input_decides_witness:
  "prepare_variables parse_date
        [(''id'', VInt 2), (''fieldA'', VStr ''Ten'')]
        [(''id'', VInt 2), (''fieldA'', VStr ''Ten'')] []
        [\<lparr>varName = ''fieldB'', varType = ''number''\<rparr>,
         \<lparr>varName = ''fieldA'', varType = ''number''\<rparr>]
     = Inl (HTTPException 400 (VariableNotFound ''fieldB'' (VInt 2)))
   \<and> prepare_variables parse_date
        [(''id'', VInt 2), (''fieldA'', VStr ''Ten'')]
        [(''id'', VInt 2), (''fieldA'', VStr ''Ten'')] []
        [\<lparr>varName = ''fieldA'', varType = ''number''\<rparr>,
         \<lparr>varName = ''fieldB'', varType = ''number''\<rparr>]
     = Inl (HTTPException 400 (ConversionError (ValueError (could_not_convert ''Ten''))))"
proof -
  let ?item = "[(''id'', VInt 2), (''fieldA'', VStr ''Ten'')]"
  let ?fA = "\<lparr>varName = ''fieldA'', varType = ''number''\<rparr>"
  let ?fB = "\<lparr>varName = ''fieldB'', varType = ''number''\<rparr>"
  have start: "prepare_variables parse_date ?item ?item [] [] = Inr []"
    by simp
  have absent: "map_of ?item (varName ?fB) = None"
    by simp
  have present: "map_of ?item (varName ?fA) = Some (VStr ''Ten'')"
    by simp
  have bad: "convert_variable parse_date (VStr ''Ten'') (varType ?fA)
      = Inl (ValueError (could_not_convert ''Ten''))"
    by (simp add: convert_number float_Ten)
  from first_failing_input_decides[OF start, of ?fB "[?fA]"] absent
  have one: "prepare_variables parse_date ?item ?item [] ([] @ ?fB # [?fA])
      = Inl (HTTPException 400 (VariableNotFound (varName ?fB) (item_id ?item)))"
    by blast
  from first_failing_input_decides[OF start, of ?fA "[?fB]"] present bad
  have two: "prepare_variables parse_date ?item ?item [] ([] @ ?fA # [?fB])
      = Inl (HTTPException 400 (ConversionError (ValueError (could_not_convert ''Ten''))))"
    by blast
  from one two show ?thesis
    by (simp add: item_id_def)
qed

text \<open>
  C5 as stated fails: \<^verbatim>\<open>fieldA\<close> is present and does not convert, \<^verbatim>\<open>fieldB\<close> is absent
  and declared after it, and the error is the conversion error.
\<close>

theorem conversion_error_before_missing_field:
  "map_of [(''id'', VInt 2), (''fieldA'', VStr ''Ten'')] ''fieldB'' = None
   \<and> prepare_variables parse_date
        [(''id'', VInt 2), (''fieldA'', VStr ''Ten'')]
        [(''id'', VInt 2), (''fieldA'', VStr ''Ten'')] []
        [\<lparr>varName = ''fieldA'', varType = ''number''\<rparr>,
         \<lparr>varName = ''fieldB'', varType = ''number''\<rparr>]
     = Inl (HTTPException 400 (ConversionError (ValueError (could_not_convert ''Ten''))))
   \<and> evaluate_formulas numexpr_evaluate parse_date
        \<lparr>data = [[(''id'', VInt 1), (''fieldA'', VInt 10), (''fieldB'', VInt 30)],
                 [(''id'', VInt 2), (''fieldA'', VStr ''Ten'')]],
         formulas = [\<lparr>outputVar = ''result'', expression = ''fieldA + fieldB'',
                      inputs = [\<lparr>varName = ''fieldA'', varType = ''number''\<rparr>,
                                \<lparr>varName = ''fieldB'', varType = ''number''\<rparr>]\<rparr>]\<rparr>
     = Inl (HTTPException 400 (ConversionError (ValueError (could_not_convert ''Ten''))))"
  by (simp add: service_defs add_fields_probe add_fields_first float_Ten)

text \<open>
  C6, as amended. Under the tag \<^verbatim>\<open>percentage\<close>, a text ending in \<^verbatim>\<open>%\<close> loses every
  \<^verbatim>\<open>%\<close> at its start and at its end (\<^verbatim>\<open>str.strip\<close>) and the rest is given to \<^verbatim>\<open>float\<close>;
  any other value is given to \<^verbatim>\<open>float\<close> as it is. Nothing is divided by 100: digits
  followed by \<^verbatim>\<open>%\<close> become the number the digits denote, \<^verbatim>\<open>50%\<close> becomes 50.0 and not
  0.5.
\<close>

theorem percentage_coercion:
  "(endswith s (CHR ''%'') \<longrightarrow>
      convert_variable pd (VStr s) ''percentage'' =
        py_float (VStr (strip_chars (\<lambda>c. c = CHR ''%'') s)))
   \<and> (\<not> endswith s (CHR ''%'') \<longrightarrow>
      convert_variable pd (VStr s) ''percentage'' = py_float (VStr s))
   \<and> ((\<forall>t. v \<noteq> VStr t) \<longrightarrow> convert_variable pd v ''percentage'' = py_float v)
   \<and> (ds \<noteq> [] \<longrightarrow> list_all is_digit ds \<longrightarrow> length ds \<le> 300 \<longrightarrow>
      convert_variable pd (VStr (ds @ ''%'')) ''percentage'' =
        Inr (VFloat (Finite (of_nat (digits_value ds)))))
   \<and> convert_variable pd (VStr ''50%'') ''percentage'' = Inr (VFloat (Finite 50))
   \<and> convert_variable pd (VStr ''50%'') ''percentage'' \<noteq> Inr (VFloat (Finite 0.5))"
proof (intro conjI impI)
  assume "endswith s (CHR ''%'')"
  then show "convert_variable pd (VStr s) ''percentage'' =
        py_float (VStr (strip_chars (\<lambda>c. c = CHR ''%'') s))"
    by (simp add: convert_percentage_text del: py_float.simps)
next
  assume "\<not> endswith s (CHR ''%'')"
  then show "convert_variable pd (VStr s) ''percentage'' = py_float (VStr s)"
    by (simp add: convert_percentage_text del: py_float.simps)
next
  assume "\<forall>t. v \<noteq> VStr t"
  then show "convert_variable pd v ''percentage'' = py_float v"
    by (intro convert_percentage_other) simp
next
  assume "ds \<noteq> []" "list_all is_digit ds" "length ds \<le> 300"
  then show "convert_variable pd (VStr (ds @ ''%'')) ''percentage'' =
        Inr (VFloat (Finite (of_nat (digits_value ds))))"
    by (rule percentage_of_digits)
next
  have fifty: "convert_variable pd (VStr ''50%'') ''percentage'' = Inr (VFloat (Finite 50))"
    by (simp add: convert_percentage_text endswith_def strip_chars_def float_50)
  then show "convert_variable pd (VStr ''50%'') ''percentage'' = Inr (VFloat (Finite 50))" .
  from fifty show "convert_variable pd (VStr ''50%'') ''percentage'' \<noteq> Inr (VFloat (Finite 0.5))"
    by simp
qed

text \<open>
  A text with a fraction, a text without the sign, a number.
\<close>

theorem percentage_coercion_witness:
  "endswith ''12.5%'' (CHR ''%'')
   \<and> convert_variable parse_date (VStr ''12.5%'') ''percentage'' = Inr (VFloat (Finite 12.5))
   \<and> \<not> endswith ''0.5'' (CHR ''%'')
   \<and> convert_variable parse_date (VStr ''0.5'') ''percentage'' = Inr (VFloat (Finite 0.5))
   \<and> convert_variable parse_date (VInt 50) ''percentage'' = Inr (VFloat (Finite 50))
   \<and> list_all is_digit ''50'' \<and> digits_value ''50'' = 50
   \<and> convert_variable parse_date (VStr ''50%'') ''percentage'' = Inr (VFloat (Finite 50))"
  using percentage_coercion[of "''12.5%''" parse_date "VInt 50" "''50''"]
    percentage_coercion[of "''0.5''" parse_date "VInt 50" "''50''"]
  by (simp add: endswith_def strip_chars_def float_12_5 float_0_5 is_digit_def
      digits_value_def digit_value_def)

text \<open>
  C6 as stated fails: \<^verbatim>\<open>%50%\<close> ends in \<^verbatim>\<open>%\<close>; without the suffix it is \<^verbatim>\<open>%50\<close>, which
  \<^verbatim>\<open>float\<close> rejects, and the conversion returns 50.0.
\<close>

theorem percent_sign_stripped_on_both_sides:
  "endswith ''%50%'' (CHR ''%'')
   \<and> convert_variable parse_date (VStr ''%50%'') ''percentage'' = Inr (VFloat (Finite 50))
   \<and> percentage_as_worded ''%50%'' = Inl (ValueError (could_not_convert ''%50''))"
  by (simp add: convert_percentage_text endswith_def strip_chars_def float_50
      percentage_as_worded_def float_percent_50)




text \<open>
  C9. A type tag other than \<^verbatim>\<open>number\<close>, \<^verbatim>\<open>boolean\<close>, \<^verbatim>\<open>datetime\<close>, \<^verbatim>\<open>percentage\<close> and
  \<^verbatim>\<open>currency\<close> makes the conversion fail, for every value, with the error
  \<^verbatim>\<open>Unsupported variable type\<close> that names the tag; under one of the five tags the
  conversion never fails with that error, so it is told apart from the error of a value
  that does not convert.
\<close>

theorem unsupported_type_rejected:
  "(t \<notin> {''number'', ''boolean'', ''datetime'', ''percentage'', ''currency''} \<longrightarrow>
      convert_variable pd v t = Inl (ValueError (unsupported_type t)))
   \<and> (t \<in> {''number'', ''boolean'', ''datetime'', ''percentage'', ''currency''} \<longrightarrow>
      convert_variable pd v t \<noteq> Inl (ValueError (unsupported_type t')))"
proof (intro conjI impI)
  assume "t \<notin> {''number'', ''boolean'', ''datetime'', ''percentage'', ''currency''}"
  then show "convert_variable pd v t = Inl (ValueError (unsupported_type t))"
    by (simp add: convert_variable_def)
next
  assume "t \<in> {''number'', ''boolean'', ''datetime'', ''percentage'', ''currency''}"
  then have "t = ''number'' \<or> t = ''boolean'' \<or> t = ''datetime''
    \<or> t = ''percentage'' \<or> t = ''currency''"
    by simp
  then show "convert_variable pd v t \<noteq> Inl (ValueError (unsupported_type t'))"
    using number_supported boolean_supported datetime_supported percentage_supported
      currency_supported
    by (elim disjE) (erule ssubst, assumption)+
qed

text \<open>
  The tag \<^verbatim>\<open>int\<close> of \<^verbatim>\<open>test_empty_data_or_formula\<close>, and a text that is no number.
\<close>

theorem unsupported_type_rejected_witness:
  "''int'' \<notin> {''number'', ''boolean'', ''datetime'', ''percentage'', ''currency''}
   \<and> convert_variable parse_date (VInt 10) ''int'' = Inl (ValueError (unsupported_type ''int''))
   \<and> ''number'' \<in> {''number'', ''boolean'', ''datetime'', ''percentage'', ''currency''}
   \<and> convert_variable parse_date (VStr ''Ten'') ''number'' \<noteq>
       Inl (ValueError (unsupported_type ''number''))"
  using unsupported_type_rejected[of "''int''" parse_date "VInt 10"]
    unsupported_type_rejected[of "''number''" parse_date "VStr ''Ten''" "''number''"]
  by simp

text \<open>
  C10. The dry run of validation gives the evaluator the declared input names of the
  formula, each bound to 1, and nothing else; validation depends on the evaluator
  through these calls only. So, for an evaluator that fails on an expression that
  refers to a name its scope does not bind: a formula that passes the two checks before
  the dry run and whose expression refers to a name that is not among its declared
  inputs is rejected with the syntax error response, also when the name is a field of
  the first record or the output of an earlier formula.
\<close>

theorem dry_run_binds_declared_inputs:
  assumes strict: "\<And>e d n. n \<in> names e \<Longrightarrow> map_of d n = None \<Longrightarrow> \<exists>x. ne e d = Inl x"
  shows "map_of (placeholders (inputs f)) n =
           (if n \<in> varName ` set (inputs f) then Some (VInt 1) else None)
    \<and> ((\<forall>g\<in>set fs. ne (expression g) (placeholders (inputs g)) =
                     ne' (expression g) (placeholders (inputs g))) \<longrightarrow>
         validate_formulas ne items fs = validate_formulas ne' items fs)
    \<and> (validate_formulas ne (first # rest) xs = Inr () \<longrightarrow>
        (\<forall>v\<in>set (inputs f). varName v \<in> set (map fst first) \<or> varName v \<in> outputVar ` set xs) \<longrightarrow>
        outputVar f \<notin> varName ` set (inputs f) \<longrightarrow>
        n \<in> names (expression f) \<longrightarrow>
        n \<notin> varName ` set (inputs f) \<longrightarrow>
        (\<exists>x. validate_formulas ne (first # rest) (xs @ f # ys) =
               Inl (HTTPException 400 (FormulaSyntaxError (outputVar f) (expression f) x))))"
proof (intro conjI impI)
  show "map_of (placeholders (inputs f)) n =
          (if n \<in> varName ` set (inputs f) then Some (VInt 1) else None)"
    by (rule map_of_placeholders)
next
  assume "\<forall>g\<in>set fs. ne (expression g) (placeholders (inputs g)) =
                      ne' (expression g) (placeholders (inputs g))"
  then show "validate_formulas ne items fs = validate_formulas ne' items fs"
    by (cases items) (auto simp: validate_formulas_def intro: validate_loop_cong)
next
  assume pre: "validate_formulas ne (first # rest) xs = Inr ()"
    and av: "\<forall>v\<in>set (inputs f). varName v \<in> set (map fst first) \<or> varName v \<in> outputVar ` set xs"
    and noself: "outputVar f \<notin> varName ` set (inputs f)"
    and ref: "n \<in> names (expression f)"
    and undeclared: "n \<notin> varName ` set (inputs f)"
  from undeclared have "map_of (placeholders (inputs f)) n = None"
    by (simp add: map_of_placeholders)
  from strict[OF ref this] obtain x
    where x: "ne (expression f) (placeholders (inputs f)) = Inl x" ..
  from av have "check_inputs (set (map fst first)) ({} \<union> outputVar ` set xs) (outputVar f) (inputs f) = Inr ()"
    by (simp add: check_inputs_ok)
  then have "validate_loop ne (set (map fst first)) ({} \<union> outputVar ` set xs) (f # ys) =
          Inl (HTTPException 400 (FormulaSyntaxError (outputVar f) (expression f) x))"
    using noself x by (rule validate_loop_syntax_error)
  with pre
  have "validate_formulas ne (first # rest) (xs @ f # ys) =
          Inl (HTTPException 400 (FormulaSyntaxError (outputVar f) (expression f) x))"
    by (simp add: validate_formulas_def validate_loop_append)
  then show "\<exists>x. validate_formulas ne (first # rest) (xs @ f # ys) =
          Inl (HTTPException 400 (FormulaSyntaxError (outputVar f) (expression f) x))" ..
qed

text \<open>
  The undeclared name is a field of the first record (\<^verbatim>\<open>fieldB\<close>), then the output of the
  formula before (\<^verbatim>\<open>resultA\<close>).
\<close>

theorem dry_run_binds_declared_inputs_witness:
  "''fieldB'' \<in> expression_names ''fieldA + fieldB''
   \<and> ''fieldB'' \<in> set (map fst [(''fieldA'', VInt 10), (''fieldB'', VInt 30)])
   \<and> map_of (placeholders [\<lparr>varName = ''fieldA'', varType = ''number''\<rparr>]) ''fieldA'' = Some (VInt 1)
   \<and> map_of (placeholders [\<lparr>varName = ''fieldA'', varType = ''number''\<rparr>]) ''fieldB'' = None
   \<and> validate_formulas numexpr_evaluate [[(''fieldA'', VInt 10), (''fieldB'', VInt 30)]]
        [\<lparr>outputVar = ''result'', expression = ''fieldA + fieldB'',
          inputs = [\<lparr>varName = ''fieldA'', varType = ''number''\<rparr>]\<rparr>]
      = Inl (HTTPException 400
              (FormulaSyntaxError ''result'' ''fieldA + fieldB'' (KeyError ''fieldB'')))
   \<and> ''resultA'' \<in> expression_names ''resultA + fieldA''
   \<and> validate_formulas numexpr_evaluate [[(''fieldA'', VInt 10)]]
        [\<lparr>outputVar = ''resultA'', expression = ''fieldA + 10'',
          inputs = [\<lparr>varName = ''fieldA'', varType = ''number''\<rparr>]\<rparr>,
         \<lparr>outputVar = ''total'', expression = ''resultA + fieldA'',
          inputs = [\<lparr>varName = ''fieldA'', varType = ''number''\<rparr>]\<rparr>]
      = Inl (HTTPException 400
              (FormulaSyntaxError ''total'' ''resultA + fieldA'' (KeyError ''resultA'')))"
proof -
  let ?fA = "\<lparr>varName = ''fieldA'', varType = ''number''\<rparr>"
  let ?f = "\<lparr>outputVar = ''result'', expression = ''fieldA + fieldB'', inputs = [?fA]\<rparr>"
  let ?g = "\<lparr>outputVar = ''resultA'', expression = ''fieldA + 10'', inputs = [?fA]\<rparr>"
  let ?h = "\<lparr>outputVar = ''total'', expression = ''resultA + fieldA'', inputs = [?fA]\<rparr>"
  let ?sample = "[(''fieldA'', VInt 10), (''fieldB'', VInt 30)]"
  note bound1 = dry_run_binds_declared_inputs[where ne = numexpr_evaluate
      and names = expression_names and f = ?f and n = "''fieldA''",
      OF numexpr_evaluate_unbound, THEN conjunct1]
  note bound2 = dry_run_binds_declared_inputs[where ne = numexpr_evaluate
      and names = expression_names and f = ?f and n = "''fieldB''",
      OF numexpr_evaluate_unbound, THEN conjunct1]
  note rejected1 = dry_run_binds_declared_inputs[where ne = numexpr_evaluate
      and names = expression_names and f = ?f and n = "''fieldB''"
      and first = ?sample and rest = "[]" and xs = "[]" and ys = "[]",
      OF numexpr_evaluate_unbound, THEN conjunct2, THEN conjunct2, rule_format]
  note rejected2 = dry_run_binds_declared_inputs[where ne = numexpr_evaluate
      and names = expression_names and f = ?h and n = "''resultA''"
      and first = "[(''fieldA'', VInt 10)]" and rest = "[]" and xs = "[?g]" and ys = "[]",
      OF numexpr_evaluate_unbound, THEN conjunct2, THEN conjunct2, rule_format]
  have n1: "''fieldB'' \<in> expression_names ''fieldA + fieldB''"
    by (simp add: names_add_fields)
  have n2: "''resultA'' \<in> expression_names ''resultA + fieldA''"
    by (simp add: names_chain)
  have field: "''fieldB'' \<in> set (map fst ?sample)"
    by simp
  have b1: "map_of (placeholders [?fA]) ''fieldA'' = Some (VInt 1)"
    using bound1 by simp
  have b2: "map_of (placeholders [?fA]) ''fieldB'' = None"
    using bound2 by simp
  have pre: "validate_formulas numexpr_evaluate [[(''fieldA'', VInt 10)]] [?g] = Inr ()"
    by (simp add: service_defs add_ten_probe)
  have "\<exists>x. validate_formulas numexpr_evaluate (?sample # []) ([] @ ?f # [])
      = Inl (HTTPException 400 (FormulaSyntaxError (outputVar ?f) (expression ?f) x))"
  proof (rule rejected1)
    show "validate_formulas numexpr_evaluate (?sample # []) [] = Inr ()"
      by (simp add: validate_formulas_def)
    show "varName v \<in> set (map fst ?sample) \<or> varName v \<in> outputVar ` set []"
      if "v \<in> set (inputs ?f)" for v
      using that by simp
    show "outputVar ?f \<notin> varName ` set (inputs ?f)"
      by simp
    show "''fieldB'' \<in> expression_names (expression ?f)"
      using n1 by simp
    show "''fieldB'' \<notin> varName ` set (inputs ?f)"
      by simp
  qed
  then obtain x where "validate_formulas numexpr_evaluate [?sample] [?f]
      = Inl (HTTPException 400 (FormulaSyntaxError ''result'' ''fieldA + fieldB'' x))"
    by auto
  moreover have "validate_formulas numexpr_evaluate [?sample] [?f]
      = Inl (HTTPException 400 (FormulaSyntaxError ''result'' ''fieldA + fieldB'' (KeyError ''fieldB'')))"
    by (simp add: service_defs add_fields_undeclared)
  ultimately have one: "validate_formulas numexpr_evaluate [?sample] [?f]
      = Inl (HTTPException 400 (FormulaSyntaxError ''result'' ''fieldA + fieldB'' (KeyError ''fieldB'')))"
    by simp
  have "\<exists>x. validate_formulas numexpr_evaluate ([(''fieldA'', VInt 10)] # []) ([?g] @ ?h # [])
      = Inl (HTTPException 400 (FormulaSyntaxError (outputVar ?h) (expression ?h) x))"
  proof (rule rejected2)
    show "validate_formulas numexpr_evaluate ([(''fieldA'', VInt 10)] # []) [?g] = Inr ()"
      using pre .
    show "varName v \<in> set (map fst [(''fieldA'', VInt 10)]) \<or> varName v \<in> outputVar ` set [?g]"
      if "v \<in> set (inputs ?h)" for v
      using that by simp
    show "outputVar ?h \<notin> varName ` set (inputs ?h)"
      by simp
    show "''resultA'' \<in> expression_names (expression ?h)"
      using n2 by simp
    show "''resultA'' \<notin> varName ` set (inputs ?h)"
      by simp
  qed
  then obtain y where "validate_formulas numexpr_evaluate [[(''fieldA'', VInt 10)]] [?g, ?h]
      = Inl (HTTPException 400 (FormulaSyntaxError ''total'' ''resultA + fieldA'' y))"
    by auto
  moreover have "validate_formulas numexpr_evaluate [[(''fieldA'', VInt 10)]] [?g, ?h]
      = Inl (HTTPException 400 (FormulaSyntaxError ''total'' ''resultA + fieldA'' (KeyError ''resultA'')))"
    by (simp add: service_defs add_ten_probe chain_undeclared)
  ultimately have two: "validate_formulas numexpr_evaluate [[(''fieldA'', VInt 10)]] [?g, ?h]
      = Inl (HTTPException 400 (FormulaSyntaxError ''total'' ''resultA + fieldA'' (KeyError ''resultA'')))"
    by simp
  show ?thesis
    by (intro conjI) (rule n1 field b1 b2 one n2 two)+
qed

section \<open>Further properties of the service\<close>

text \<open>
  X1. An empty list of records is answered with \<^verbatim>\<open>Empty data\<close> and, when there are
  records, an empty list of formulas with \<^verbatim>\<open>Empty formulas\<close>, whatever the rest of the
  request is and before the evaluator is called.
\<close>

theorem empty_input_guards:
  "evaluate_formulas ne pd \<lparr>data = [], formulas = fs\<rparr> = Inl (HTTPException 400 EmptyData)
   \<and> (items \<noteq> [] \<longrightarrow>
        evaluate_formulas ne pd \<lparr>data = items, formulas = []\<rparr> = Inl (HTTPException 400 EmptyFormulas))"
  by (simp add: evaluate_formulas_def evaluate_body_def)

theorem empty_input_guards_witness:
  "[[(''id'', VInt 1), (''var1'', VInt 10), (''var2'', VInt 5)]] \<noteq> []
   \<and> evaluate_formulas numexpr_evaluate parse_date
        \<lparr>data = [[(''id'', VInt 1), (''var1'', VInt 10), (''var2'', VInt 5)]], formulas = []\<rparr>
      = Inl (HTTPException 400 EmptyFormulas)"
  using empty_input_guards[of numexpr_evaluate parse_date "[]"
      "[[(''id'', VInt 1), (''var1'', VInt 10), (''var2'', VInt 5)]]"]
  by simp

text \<open>
  X2. When the formulas before a formula validate and the first of its inputs that is
  neither a field of the first record nor the output of an earlier formula is \<open>v\<close>, the
  request is rejected with the error that \<open>v\<close> is not available in that formula, by
  validation: no record is evaluated.
\<close>

theorem unresolved_variable_rejected:
  assumes "validate_formulas ne (first # rest) xs = Inr ()"
    and "inputs f = seen @ v # unseen"
    and "\<forall>u\<in>set seen. varName u \<in> set (map fst first) \<or> varName u \<in> outputVar ` set xs"
    and "varName v \<notin> set (map fst first)"
    and "varName v \<notin> outputVar ` set xs"
  shows "validate_formulas ne (first # rest) (xs @ f # ys) =
           Inl (HTTPException 400 (VariableNotAvailable (varName v) (outputVar f)))
       \<and> evaluate_formulas ne pd \<lparr>data = first # rest, formulas = xs @ f # ys\<rparr> =
           Inl (HTTPException 400 (VariableNotAvailable (varName v) (outputVar f)))"
proof -
  from assms(3) have "check_inputs (set (map fst first)) ({} \<union> outputVar ` set xs) (outputVar f) seen = Inr ()"
    by (simp add: check_inputs_ok)
  with assms(2,4,5)
  have "check_inputs (set (map fst first)) ({} \<union> outputVar ` set xs) (outputVar f) (inputs f)
      = Inl (HTTPException 400 (VariableNotAvailable (varName v) (outputVar f)))"
    by (simp add: check_inputs_append)
  with assms(1)
  have v: "validate_formulas ne (first # rest) (xs @ f # ys) =
           Inl (HTTPException 400 (VariableNotAvailable (varName v) (outputVar f)))"
    by (simp add: validate_formulas_def validate_loop_append)
  then show ?thesis
    by (simp add: evaluate_formulas_def evaluate_body_def)
qed

theorem unresolved_variable_rejected_witness:
  "validate_formulas numexpr_evaluate [[(''fieldA'', VInt 10)]] [] = Inr ()
   \<and> ''fieldB'' \<notin> set (map fst [(''fieldA'', VInt 10)])
   \<and> evaluate_formulas numexpr_evaluate parse_date
        \<lparr>data = [[(''fieldA'', VInt 10)]],
         formulas = [\<lparr>outputVar = ''result'', expression = ''fieldA + fieldB'',
                      inputs = [\<lparr>varName = ''fieldA'', varType = ''number''\<rparr>,
                                \<lparr>varName = ''fieldB'', varType = ''number''\<rparr>]\<rparr>]\<rparr>
      = Inl (HTTPException 400 (VariableNotAvailable ''fieldB'' ''result''))"
proof -
  let ?fA = "\<lparr>varName = ''fieldA'', varType = ''number''\<rparr>"
  let ?fB = "\<lparr>varName = ''fieldB'', varType = ''number''\<rparr>"
  let ?f = "\<lparr>outputVar = ''result'', expression = ''fieldA + fieldB'', inputs = [?fA, ?fB]\<rparr>"
  have pre: "validate_formulas numexpr_evaluate ([(''fieldA'', VInt 10)] # []) [] = Inr ()"
    by (simp add: validate_formulas_def)
  have split: "inputs ?f = [?fA] @ ?fB # []"
    by simp
  have seen: "\<forall>u\<in>set [?fA]. varName u \<in> set (map fst [(''fieldA'', VInt 10)])
      \<or> varName u \<in> outputVar ` set []"
    by simp
  have absent: "varName ?fB \<notin> set (map fst [(''fieldA'', VInt 10)])"
    by simp
  have fresh: "varName ?fB \<notin> outputVar ` set []"
    by simp
  from unresolved_variable_rejected[where ne = numexpr_evaluate and pd = parse_date and ys = "[]",
      OF pre split seen absent fresh] pre absent
  show ?thesis
    by simp
qed

text \<open>
  X3. In a successful response the series of a formula's output name has one value for
  each record and each formula with that output name: as many values as records when
  the output names are distinct.
\<close>

theorem one_result_per_record:
  assumes "evaluate_formulas ne pd request = Inr r" and "f \<in> set (formulas request)"
  shows "\<exists>series. map_of (results r) (outputVar f) = Some series
           \<and> length series =
               length (data request) * count_list (map outputVar (formulas request)) (outputVar f)
           \<and> (distinct (map outputVar (formulas request)) \<longrightarrow>
                 length series = length (data request))"
proof -
  from assms(1) have run: "run_items ne pd (formulas request) (empty_results (formulas request))
      (data request) = Inr (results r)"
    by (auto simp: evaluate_formulas_def evaluate_body_def
        split: sum.splits raised.splits if_splits)
  from assms(2) have "map_of (empty_results (formulas request)) (outputVar f) = Some []"
    by (simp add: map_of_empty_results)
  from run_items_series[OF run this] obtain t where
    t: "map_of (results r) (outputVar f) = Some t"
    "length t = length (data request) * count_list (map outputVar (formulas request)) (outputVar f)"
    by auto
  moreover have "count_list (map outputVar (formulas request)) (outputVar f) = 1"
    if "distinct (map outputVar (formulas request))"
    using that assms(2) by (intro count_list_distinct) auto
  ultimately show ?thesis
    by auto
qed

theorem one_result_per_record_witness:
  "evaluate_formulas numexpr_evaluate parse_date
     \<lparr>data = [[(''id'', VInt 1), (''fieldA'', VInt 10)], [(''id'', VInt 2), (''fieldA'', VInt 20)]],
      formulas = [\<lparr>outputVar = ''result'', expression = ''fieldA + 10'',
                   inputs = [\<lparr>varName = ''fieldA'', varType = ''number''\<rparr>]\<rparr>]\<rparr>
     = Inr \<lparr>results = [(''result'', [VFloat (Finite 20), VFloat (Finite 30)])],
            status = ''success'',
            message = ''The formulas were executed successfully with variable-based chaining.''\<rparr>
   \<and> length [VFloat (Finite 20), VFloat (Finite 30)]
       = length [[(''id'', VInt 1), (''fieldA'', VInt 10)], [(''id'', VInt 2), (''fieldA'', VInt 20)]]"
proof -
  let ?f = "\<lparr>outputVar = ''result'', expression = ''fieldA + 10'',
                   inputs = [\<lparr>varName = ''fieldA'', varType = ''number''\<rparr>]\<rparr>"
  let ?req = "\<lparr>data = [[(''id'', VInt 1), (''fieldA'', VInt 10)], [(''id'', VInt 2), (''fieldA'', VInt 20)]],
      formulas = [?f]\<rparr>"
  let ?r = "\<lparr>results = [(''result'', [VFloat (Finite 20), VFloat (Finite 30)])],
            status = ''success'',
            message = ''The formulas were executed successfully with variable-based chaining.''\<rparr>"
  have run: "evaluate_formulas numexpr_evaluate parse_date ?req = Inr ?r"
    by (simp add: service_defs add_ten_probe add_ten_first add_ten_second)
  have mem: "?f \<in> set (formulas ?req)"
    by simp
  from one_result_per_record[OF run mem] run show ?thesis
    by simp
qed

end
